theory Spec2Isabelle
  imports Complex_Main "HOL-Library.Word"
begin

unbundle bit_operations_syntax

section \<open>JavaScript strings and values\<close>

text \<open>
  A JavaScript string is a sequence of UTF-16 code units: \<open>str.length\<close> counts them and
  \<open>str.charCodeAt(i)\<close> reads one. Literals of the source are written \<open>u ''...''\<close> for
  their ASCII runs and as explicit code units elsewhere (a bullet is \<open>[0x2022]\<close>, an
  emoji is its surrogate pair).
\<close>

type_synonym jsstring = "16 word list"

definition u :: "string \<Rightarrow> jsstring" where
  "u s = map (\<lambda>c. of_nat (of_char c)) s"

definition nl :: jsstring where
  "nl = [0x0A]"

text \<open>
  The values a parsed response body (\<open>response.data\<close>) and a cache entry can hold: the JSON
  values, \<open>undefined\<close>, and the built-in members every object literal inherits from
  \<open>Object.prototype\<close> (named by their property key). JSON has no NaN, so a number is
  falsy exactly when it is zero.
\<close>

datatype jsval =
    JUndefined
  | JNull
  | JBool bool
  | JNum real
  | JStr jsstring
  | JArr "jsval list"
  | JObj "(jsstring \<times> jsval) list"
  | JNative jsstring

fun truthy :: "jsval \<Rightarrow> bool" where
  "truthy JUndefined = False"
| "truthy JNull = False"
| "truthy (JBool b) = b"
| "truthy (JNum x) = (x \<noteq> 0)"
| "truthy (JStr s) = (s \<noteq> [])"
| "truthy (JArr xs) = True"
| "truthy (JObj fs) = True"
| "truthy (JNative k) = True"

fun is_string :: "jsval \<Rightarrow> bool" where
  "is_string (JStr s) = True"
| "is_string v = False"

datatype js_error = Error jsstring | TypeError jsstring

fun message :: "js_error \<Rightarrow> jsstring" where
  "message (Error m) = m"
| "message (TypeError m) = m"

subsection \<open>Property lookup on an object literal\<close>

text \<open>
  \<open>obj[key]\<close> on an object literal finds the literal's own properties first and then the
  members of \<open>Object.prototype\<close>; only a key that is neither gives \<open>undefined\<close>.
\<close>

definition object_prototype_keys :: "jsstring list" where
  "object_prototype_keys =
    [u ''constructor'', u ''__defineGetter__'', u ''__defineSetter__'', u ''hasOwnProperty'',
     u ''__lookupGetter__'', u ''__lookupSetter__'', u ''isPrototypeOf'',
     u ''propertyIsEnumerable'', u ''toString'', u ''valueOf'', u ''__proto__'',
     u ''toLocaleString'']"

definition inherited :: "jsstring \<Rightarrow> bool" where
  "inherited key = (key \<in> set object_prototype_keys)"

datatype 'a property = Own 'a | Inherited | Absent

definition get_property :: "(jsstring \<times> 'a) list \<Rightarrow> jsstring \<Rightarrow> 'a property" where
  "get_property obj key =
    (case map_of obj key of
       Some v \<Rightarrow> Own v
     | None \<Rightarrow> if inherited key then Inherited else Absent)"

text \<open>
  What a template literal prints for an inherited member, as Node.js (V8) does: the
  accessor \<open>__proto__\<close> yields \<open>Object.prototype\<close> itself, every other member is a
  native function.
\<close>

definition native_text :: "jsstring \<Rightarrow> jsstring" where
  "native_text key =
    (if key = u ''__proto__'' then u ''[object Object]''
     else if key = u ''constructor'' then u ''function Object() { [native code] }''
     else u ''function '' @ key @ u ''() { [native code] }'')"

text \<open>
  \<open>data.key\<close> on a response body, for the keys this service reads (\<open>generated_text\<close>,
  \<open>response\<close>, \<open>text\<close>, \<open>content\<close>), none of which is a member of a built-in
  prototype: \<open>null\<close> and \<open>undefined\<close> raise a TypeError, an object yields its own
  property or \<open>undefined\<close>, every other value yields \<open>undefined\<close>.
\<close>

definition field :: "(jsstring \<times> jsval) list \<Rightarrow> jsstring \<Rightarrow> jsval" where
  "field fs key = (case map_of fs key of Some v \<Rightarrow> v | None \<Rightarrow> JUndefined)"

fun get_member :: "jsval \<Rightarrow> jsstring \<Rightarrow> js_error + jsval" where
  "get_member JNull key =
     Inl (TypeError (u ''Cannot read properties of null (reading '' @ [0x27] @ key @ [0x27] @ u '')''))"
| "get_member JUndefined key =
     Inl (TypeError (u ''Cannot read properties of undefined (reading '' @ [0x27] @ key @ [0x27] @ u '')''))"
| "get_member (JObj fs) key = Inr (field fs key)"
| "get_member v key = Inr JUndefined"

text \<open>\<open>data[0]?.key\<close>: the optional chain stops at \<open>null\<close> and \<open>undefined\<close>.\<close>

definition first_element :: "jsval list \<Rightarrow> jsval" where
  "first_element xs = (case xs of [] \<Rightarrow> JUndefined | x # rest \<Rightarrow> x)"

definition get_member_optional :: "jsval \<Rightarrow> jsstring \<Rightarrow> js_error + jsval" where
  "get_member_optional v key =
    (if v = JNull \<or> v = JUndefined then Inr JUndefined else get_member v key)"

text \<open>\<open>Array.prototype.join\<close> on an array of strings.\<close>

fun join :: "jsstring \<Rightarrow> jsstring list \<Rightarrow> jsstring" where
  "join sep [] = []"
| "join sep [x] = x"
| "join sep (x # y # ys) = x @ sep @ join sep (y # ys)"

text \<open>
  \<open>prompt.replace(/\s+/g, '')\<close> deletes every white-space code unit (the class \<open>\s\<close> of
  ECMAScript).
\<close>

definition is_whitespace :: "16 word \<Rightarrow> bool" where
  "is_whitespace c =
    (c \<in> set [0x09, 0x0A, 0x0B, 0x0C, 0x0D, 0x20, 0xA0, 0x1680, 0x2028, 0x2029, 0x202F,
               0x205F, 0x3000, 0xFEFF]
     \<or> (0x2000 \<le> c \<and> c \<le> 0x200A))"

definition remove_whitespace :: "jsstring \<Rightarrow> jsstring" where
  "remove_whitespace s = filter (\<lambda>c. \<not> is_whitespace c) s"

section \<open>hashString\<close>

text \<open>
  The bitwise operators work on 32-bit signed integers: \<open>ToInt32\<close> wraps a number into
  \<open>[-2^31, 2^31)\<close>. Between them the arithmetic is on doubles, exact here because every
  intermediate value is far below \<open>2^53\<close>.
\<close>

definition ToInt32 :: "int \<Rightarrow> int" where
  "ToInt32 x = (x + 2 ^ 31) mod 2 ^ 32 - 2 ^ 31"

definition shiftLeft :: "int \<Rightarrow> nat \<Rightarrow> int" where
  "shiftLeft x n = ToInt32 (ToInt32 x * 2 ^ (n mod 32))"

definition bitAnd :: "int \<Rightarrow> int \<Rightarrow> int" where
  "bitAnd x y = (ToInt32 x AND ToInt32 y)"

text \<open>\<open>Number.prototype.toString\<close> on an integer: its decimal digits, with a sign.\<close>

fun digits :: "nat \<Rightarrow> jsstring" where
  "digits n = (if n < 10 then [of_nat (48 + n)] else digits (n div 10) @ [of_nat (48 + n mod 10)])"

definition Number_toString :: "int \<Rightarrow> jsstring" where
  "Number_toString n = (if n < 0 then u ''-'' @ digits (nat (- n)) else digits (nat n))"

text \<open>The body of the loop, for the code unit \<open>char = str.charCodeAt(i)\<close>.\<close>

definition hashString_body :: "int \<Rightarrow> 16 word \<Rightarrow> int" where
  "hashString_body hash char =
     (let hash1 = (shiftLeft hash 5 - hash) + uint char;
          hash2 = bitAnd hash1 hash1
      in hash2)"

fun hashString_loop :: "int \<Rightarrow> jsstring \<Rightarrow> int" where
  "hashString_loop hash [] = hash"
| "hashString_loop hash (char # rest) = hashString_loop (hashString_body hash char) rest"

definition hashString :: "jsstring \<Rightarrow> jsstring" where
  "hashString str = Number_toString (hashString_loop 0 str)"

text \<open>
  The spec's words for the hash: a 32-bit rolling hash, each code unit folded in as
  \<open>31 * hash + char\<close> and wrapped to 32 bits.
\<close>

definition rolling_hash32 :: "jsstring \<Rightarrow> int" where
  "rolling_hash32 str = foldl (\<lambda>h c. ToInt32 (31 * h + uint c)) 0 str"

section \<open>The service's tables\<close>

record provider =
  name :: jsstring
  url :: jsstring
  headers :: "(jsstring \<times> jsstring) list"
  enabled :: bool

record template =
  systemPrompt :: jsstring
  structure' :: "jsstring list"

text \<open>\<open>this.providers\<close> as the constructor sets it.\<close>

definition providers :: "provider list" where
  "providers =
    [\<lparr>name = u ''huggingface'',
      url = u ''https://api-inference.huggingface.co/models/microsoft/DialoGPT-medium'',
      headers = [],
      enabled = True\<rparr>,
     \<lparr>name = u ''ollama-proxy'',
      url = u ''https://ollama-proxy.vercel.app/api/generate'',
      headers = [(u ''Content-Type'', u ''application/json'')],
      enabled = True\<rparr>,
     \<lparr>name = u ''local-llm'',
      url = u ''http://localhost:11434/api/generate'',
      headers = [(u ''Content-Type'', u ''application/json'')],
      enabled = False\<rparr>]"

definition documentTemplate :: template where
  "documentTemplate =
    \<lparr>systemPrompt = u ''You are a professional document writer. Create well-structured, informative documents with proper headings, sections, and detailed content. Use professional language and clear formatting.'',
     structure' = [u ''Executive Summary'', u ''Introduction'', u ''Main Content'', u ''Analysis'', u ''Recommendations'', u ''Conclusion'']\<rparr>"

definition contentTemplates :: "(jsstring \<times> template) list" where
  "contentTemplates =
   [(u ''presentation'', \<lparr>systemPrompt = u ''You are an expert presentation creator. Create a comprehensive slide deck with clear structure, engaging content, and professional formatting. Include slide titles, bullet points, and speaker notes. Format as markdown with clear slide separations.'',
       structure' = [u ''Introduction'', u ''Problem/Opportunity'', u ''Solution'', u ''Benefits'', u ''Implementation'', u ''Conclusion'']\<rparr>),
    (u ''document'', documentTemplate),
    (u ''social'', \<lparr>systemPrompt = u ''You are a social media expert. Create engaging, viral-worthy posts with hooks, value, and appropriate hashtags. Keep it concise but impactful.'',
       structure' = [u ''Hook'', u ''Value Proposition'', u ''Call to Action'', u ''Hashtags'']\<rparr>),
    (u ''blog'', \<lparr>systemPrompt = u ''You are a content marketing expert. Write compelling blog posts with SEO optimization, engaging headlines, and valuable insights. Include introduction, main points, and conclusion.'',
       structure' = [u ''Headline'', u ''Introduction'', u ''Main Points'', u ''Examples'', u ''Conclusion'', u ''Call to Action'']\<rparr>),
    (u ''email'', \<lparr>systemPrompt = u ''You are an email marketing specialist. Create persuasive, well-structured emails that drive engagement and conversions. Include subject line and clear call to action.'',
       structure' = [u ''Subject Line'', u ''Opening'', u ''Value Proposition'', u ''Benefits'', u ''Call to Action'', u ''Closing'']\<rparr>)]"

definition toneModifiers :: "(jsstring \<times> jsstring) list" where
  "toneModifiers =
   [(u ''professional'', u ''Use a professional, business-appropriate tone with formal language.''),
    (u ''casual'', u ''Use a casual, friendly, and conversational tone that feels approachable.''),
    (u ''creative'', u ''Use a creative, innovative, and inspiring tone that sparks imagination.''),
    (u ''persuasive'', u ''Use a persuasive, compelling, and action-oriented tone that motivates.''),
    (u ''informative'', u ''Use an informative, educational, and clear tone that teaches.''),
    (u ''humorous'', u ''Use a humorous, light-hearted, and entertaining tone that engages.'')]"

definition languageInstructions :: "(jsstring \<times> jsstring) list" where
  "languageInstructions =
   [(u ''english'', []),
    (u ''spanish'', u ''Write the entire content in Spanish (Espa'' @ [0xF1] @ u ''ol).''),
    (u ''french'', u ''Write the entire content in French (Fran'' @ [0xE7] @ u ''ais).''),
    (u ''german'', u ''Write the entire content in German (Deutsch).''),
    (u ''chinese'', u ''Write the entire content in Chinese ('' @ [0x4E2D, 0x6587] @ u '').''),
    (u ''japanese'', u ''Write the entire content in Japanese ('' @ [0x65E5, 0x672C, 0x8A9E] @ u '').''),
    (u ''portuguese'', u ''Write the entire content in Portuguese (Portugu'' @ [0xEA] @ u ''s).'')]"

section \<open>buildPrompt\<close>

text \<open>
  \<open>this.languageInstructions[language] || ''\<close>, printed by the template literal: an own
  entry prints as it is (the empty one is replaced by the empty string), an inherited
  member is truthy and prints as its text, an unknown key gives the empty string.
\<close>

definition instruction :: "(jsstring \<times> jsstring) list \<Rightarrow> jsstring \<Rightarrow> jsstring" where
  "instruction table key =
    (case get_property table key of
       Own s \<Rightarrow> if s \<noteq> [] then s else []
     | Inherited \<Rightarrow> native_text key
     | Absent \<Rightarrow> [])"

definition buildPrompt :: "jsstring \<Rightarrow> template \<Rightarrow> jsstring \<Rightarrow> jsstring \<Rightarrow> jsstring" where
  "buildPrompt userPrompt template language tone =
    (let languageInstruction = instruction languageInstructions language;
         toneInstruction = instruction toneModifiers tone
     in concat [
      systemPrompt template, nl,
      nl,
      languageInstruction, nl,
      toneInstruction, nl,
      nl,
      u ''Topic: '', userPrompt, nl,
      nl,
      u ''Please create high-quality content following this structure: '', join (u '' '' @ [0x2192] @ u '' '') (structure' template), nl,
      nl,
      u ''Make it comprehensive, engaging, and actionable.''])"

section \<open>The fallback templates\<close>

definition generatePresentationTemplate :: "jsstring \<Rightarrow> jsstring \<Rightarrow> jsstring \<Rightarrow> jsstring" where
  "generatePresentationTemplate prompt language tone =
    (let prefix = (if language \<noteq> u ''english'' then u ''[Content in '' @ language @ u '']'' @ nl @ nl else []);
         toneNote = (if tone \<noteq> u ''professional'' then u ''['' @ tone @ u '' tone]'' @ nl @ nl else [])
     in concat [
      prefix, toneNote, u ''# '', prompt, nl,
      nl,
      u ''## '', [0xD83C, 0xDFAF], u '' Slide 1: Introduction'', nl,
      [0x2022], u '' Welcome to '', prompt, nl,
      [0x2022], u '' Key objectives and goals'', nl,
      [0x2022], u '' Agenda overview'', nl,
      nl,
      u ''## '', [0xD83D, 0xDCCA], u '' Slide 2: Current Situation'', nl,
      [0x2022], u '' Market analysis and trends'', nl,
      [0x2022], u '' Challenges and opportunities'', nl,
      [0x2022], u '' Key statistics and insights'', nl,
      nl,
      u ''## '', [0xD83D, 0xDCA1], u '' Slide 3: Our Approach'', nl,
      [0x2022], u '' Innovative solution'', nl,
      [0x2022], u '' Unique value proposition'', nl,
      [0x2022], u '' Competitive advantages'', nl,
      nl,
      u ''## '', [0xD83D, 0xDE80], u '' Slide 4: Implementation'', nl,
      [0x2022], u '' Step-by-step roadmap'', nl,
      [0x2022], u '' Timeline and milestones'', nl,
      [0x2022], u '' Resource requirements'', nl,
      nl,
      u ''## '', [0xD83D, 0xDCC8], u '' Slide 5: Expected Results'', nl,
      [0x2022], u '' Projected outcomes'', nl,
      [0x2022], u '' Success metrics'', nl,
      [0x2022], u '' ROI analysis'', nl,
      nl,
      u ''## '', [0xD83C, 0xDFAF], u '' Slide 6: Next Steps'', nl,
      [0x2022], u '' Immediate actions'', nl,
      [0x2022], u '' Long-term strategy'', nl,
      [0x2022], u '' Call to action'', nl,
      nl,
      u ''---'', nl,
      u ''*Generated by AI Content Creator Pro*''])"

definition generateDocumentTemplate :: "jsstring \<Rightarrow> jsstring \<Rightarrow> jsstring \<Rightarrow> jsstring" where
  "generateDocumentTemplate prompt language tone =
    (let prefix = (if language \<noteq> u ''english'' then u ''[Content in '' @ language @ u '']'' @ nl @ nl else []);
         toneNote = (if tone \<noteq> u ''professional'' then u ''['' @ tone @ u '' tone]'' @ nl @ nl else [])
     in concat [
      prefix, toneNote, u ''# '', prompt, nl,
      nl,
      u ''## Executive Summary'', nl,
      u ''This comprehensive document explores '', prompt, u '', providing detailed analysis, insights, and actionable recommendations for stakeholders.'', nl,
      nl,
      u ''## 1. Introduction'', nl,
      u ''In today's rapidly evolving landscape, '', prompt, u '' has become increasingly critical for organizations seeking competitive advantage and sustainable growth.'', nl,
      nl,
      u ''## 2. Background Analysis'', nl,
      u ''### Current Market Conditions'', nl,
      [0x2022], u '' Industry trends and developments'', nl,
      [0x2022], u '' Competitive landscape overview'', nl,
      [0x2022], u '' Regulatory environment'', nl,
      nl,
      u ''### Key Challenges'', nl,
      [0x2022], u '' Primary obstacles and barriers'', nl,
      [0x2022], u '' Resource constraints'', nl,
      [0x2022], u '' Technical limitations'', nl,
      nl,
      u ''## 3. Strategic Approach'', nl,
      u ''### Methodology'', nl,
      u ''Our approach to '', prompt, u '' incorporates best practices, innovative solutions, and proven frameworks.'', nl,
      nl,
      u ''### Implementation Framework'', nl,
      [0x2022], u '' Phase 1: Assessment and planning'', nl,
      [0x2022], u '' Phase 2: Development and testing'', nl,
      [0x2022], u '' Phase 3: Deployment and optimization'', nl,
      nl,
      u ''## 4. Recommendations'', nl,
      u ''### Immediate Actions'', nl,
      u ''1. Conduct comprehensive assessment'', nl,
      u ''2. Develop detailed implementation plan'', nl,
      u ''3. Secure necessary resources'', nl,
      nl,
      u ''### Long-term Strategy'', nl,
      [0x2022], u '' Continuous improvement processes'', nl,
      [0x2022], u '' Performance monitoring systems'', nl,
      [0x2022], u '' Scalability considerations'', nl,
      nl,
      u ''## 5. Conclusion'', nl,
      u ''Successful implementation of '', prompt, u '' requires strategic planning, dedicated resources, and ongoing commitment to excellence.'', nl,
      nl,
      u ''---'', nl,
      u ''*Generated by AI Content Creator Pro*''])"

definition generateSocialTemplate :: "jsstring \<Rightarrow> jsstring \<Rightarrow> jsstring \<Rightarrow> jsstring" where
  "generateSocialTemplate prompt language tone =
    (let prefix = (if language \<noteq> u ''english'' then u ''[Content in '' @ language @ u '']'' @ nl @ nl else []);
         toneNote = (if tone \<noteq> u ''professional'' then u ''['' @ tone @ u '' tone]'' @ nl @ nl else [])
     in concat [
      prefix, toneNote, [0xD83D, 0xDE80], u '' Ready to transform your approach to '', prompt, u ''? Here's what you need to know! '', [0xD83D, 0xDC47], nl,
      nl,
      [0x2728], u '' The game is changing, and those who adapt will thrive. '', prompt, u '' isn't just a trend'', [0x2014], u ''it's the future.'', nl,
      nl,
      [0xD83D, 0xDD25], u '' Key insights:'', nl,
      [0x2022], u '' Innovation drives success'', nl,
      [0x2022], u '' Early adopters win big'', nl,
      [0x2022], u '' Action beats perfection'', nl,
      nl,
      [0xD83D, 0xDCA1], u '' Pro tip: Start small, think big, move fast!'', nl,
      nl,
      [0xD83D, 0xDC49], u '' What's your experience with '', prompt, u ''? Share in the comments!'', nl,
      nl,
      u ''#Innovation #'', remove_whitespace prompt, u '' #Success #Growth #Future #Trending #GameChanger #Leadership'', nl,
      nl,
      u ''---'', nl,
      u ''*Created with AI Content Creator Pro*''])"

definition generateBlogTemplate :: "jsstring \<Rightarrow> jsstring \<Rightarrow> jsstring \<Rightarrow> jsstring" where
  "generateBlogTemplate prompt language tone =
    (let prefix = (if language \<noteq> u ''english'' then u ''[Content in '' @ language @ u '']'' @ nl @ nl else []);
         toneNote = (if tone \<noteq> u ''professional'' then u ''['' @ tone @ u '' tone]'' @ nl @ nl else [])
     in concat [
      prefix, toneNote, u ''# The Ultimate Guide to '', prompt, u '': Everything You Need to Know'', nl,
      nl,
      u ''## Introduction'', nl,
      u ''In today's fast-paced world, understanding '', prompt, u '' has become essential for anyone looking to stay ahead of the curve. This comprehensive guide will walk you through everything you need to know.'', nl,
      nl,
      u ''## Why '', prompt, u '' Matters Now More Than Ever'', nl,
      u ''The landscape is shifting rapidly, and '', prompt, u '' is at the center of this transformation. Here's why it should be on your radar:'', nl,
      nl,
      [0x2022], u '' **Market Demand**: Growing interest and adoption'', nl,
      [0x2022], u '' **Competitive Advantage**: Early movers gain significant benefits'', nl,
      [0x2022], u '' **Future-Proofing**: Essential for long-term success'', nl,
      nl,
      u ''## Getting Started with '', prompt, nl,
      u ''### Step 1: Understanding the Basics'', nl,
      u ''Before diving deep, it's crucial to grasp the fundamental concepts and principles.'', nl,
      nl,
      u ''### Step 2: Assessing Your Current Situation'', nl,
      u ''Evaluate where you stand and identify areas for improvement.'', nl,
      nl,
      u ''### Step 3: Creating Your Action Plan'', nl,
      u ''Develop a strategic approach tailored to your specific needs.'', nl,
      nl,
      u ''## Best Practices and Pro Tips'', nl,
      u ''1. **Start with clear objectives**'', nl,
      u ''2. **Focus on quality over quantity**'', nl,
      u ''3. **Measure and optimize continuously**'', nl,
      u ''4. **Stay updated with latest trends**'', nl,
      nl,
      u ''## Common Mistakes to Avoid'', nl,
      [0x2022], u '' Rushing the implementation process'', nl,
      [0x2022], u '' Ignoring user feedback'', nl,
      [0x2022], u '' Underestimating resource requirements'', nl,
      [0x2022], u '' Failing to plan for scalability'', nl,
      nl,
      u ''## Conclusion'', nl,
      prompt, u '' represents a significant opportunity for growth and innovation. By following the strategies outlined in this guide, you'll be well-positioned to succeed.'', nl,
      nl,
      u ''**Ready to get started?** The time to act is now!'', nl,
      nl,
      u ''---'', nl,
      u ''*Published with AI Content Creator Pro*''])"

definition generateEmailTemplate :: "jsstring \<Rightarrow> jsstring \<Rightarrow> jsstring \<Rightarrow> jsstring" where
  "generateEmailTemplate prompt language tone =
    (let prefix = (if language \<noteq> u ''english'' then u ''[Content in '' @ language @ u '']'' @ nl @ nl else []);
         toneNote = (if tone \<noteq> u ''professional'' then u ''['' @ tone @ u '' tone]'' @ nl @ nl else [])
     in concat [
      prefix, toneNote, u ''Subject: '', [0xD83D, 0xDE80], u '' Transform Your Approach to '', prompt, u '' (Limited Time)'', nl,
      nl,
      u ''Hi [Name],'', nl,
      nl,
      u ''I hope this email finds you well. I'm reaching out because I believe you'd be interested in the latest developments around '', prompt, u ''.'', nl,
      nl,
      u ''**Here's what's happening:**'', nl,
      nl,
      u ''The industry is rapidly evolving, and those who adapt quickly are seeing remarkable results. Companies implementing '', prompt, u '' strategies are reporting:'', nl,
      nl,
      [0x2705], u '' Increased efficiency by 40%'', nl,
      [0x2705], u '' Higher customer satisfaction scores'', nl,
      [0x2705], u '' Significant competitive advantages'', nl,
      nl,
      u ''**But here's the challenge...**'', nl,
      nl,
      u ''Most organizations are still struggling with outdated approaches. They're missing out on incredible opportunities because they haven't embraced '', prompt, u ''.'', nl,
      nl,
      u ''**The good news?**'', nl,
      nl,
      u ''You don't have to be one of them. We've developed a proven framework that makes '', prompt, u '' implementation straightforward and effective.'', nl,
      nl,
      u ''**What makes this different:**'', nl,
      [0x2022], u '' Step-by-step guidance'', nl,
      [0x2022], u '' Proven results'', nl,
      [0x2022], u '' Ongoing support'', nl,
      [0x2022], u '' Risk-free guarantee'', nl,
      nl,
      u ''**Ready to learn more?**'', nl,
      nl,
      u ''I'd love to show you exactly how this works. Would you be available for a brief 15-minute call this week?'', nl,
      nl,
      u ''Simply reply to this email with your preferred time, and I'll send over a calendar link.'', nl,
      nl,
      u ''Best regards,'', nl,
      u ''[Your Name]'', nl,
      nl,
      u ''P.S. This opportunity won't be available forever. The companies that act now will have a significant head start over their competition.'', nl,
      nl,
      u ''---'', nl,
      u ''*Crafted with AI Content Creator Pro*''])"
section \<open>generateFallbackContent\<close>

text \<open>
  All five templates are built, then \<open>templates[contentType] || templates.document\<close>
  picks one. For a key inherited from \<open>Object.prototype\<close> the lookup yields that member,
  which is truthy, so it is what the function returns.
\<close>

definition generateFallbackContent :: "jsstring \<Rightarrow> jsstring \<Rightarrow> jsstring \<Rightarrow> jsstring \<Rightarrow> jsval" where
  "generateFallbackContent prompt contentType language tone =
    (let templates =
       [(u ''presentation'', generatePresentationTemplate prompt language tone),
        (u ''document'', generateDocumentTemplate prompt language tone),
        (u ''social'', generateSocialTemplate prompt language tone),
        (u ''blog'', generateBlogTemplate prompt language tone),
        (u ''email'', generateEmailTemplate prompt language tone)]
     in case get_property templates contentType of
          Own s \<Rightarrow> if s \<noteq> [] then JStr s else JStr (generateDocumentTemplate prompt language tone)
        | Inherited \<Rightarrow> JNative contentType
        | Absent \<Rightarrow> JStr (generateDocumentTemplate prompt language tone))"

section \<open>The world outside the service\<close>

text \<open>
  What one call of \<open>generateContent\<close> meets: the clock when it reads the cache and when
  it writes it (milliseconds, as \<open>Date.now()\<close>), what \<open>axios.post(url, requestData,
  {headers, timeout})\<close> does (it rejects with an error message on a network error, a
  time-out or a status outside 2xx, or resolves with the parsed body \<open>response.data\<close>),
  and the built-in \<open>JSON.stringify\<close>.
\<close>

datatype axios_result = Rejected jsstring | Resolved jsval

record world =
  clock_get :: nat
  clock_set :: nat
  axios_post :: "jsstring \<Rightarrow> jsval \<Rightarrow> (jsstring \<times> jsstring) list \<Rightarrow> nat \<Rightarrow> axios_result"
  JSON_stringify :: "jsval \<Rightarrow> jsval"

section \<open>parseResponse and callProvider\<close>

text \<open>
  The \<open>try\<close> block of \<open>parseResponse\<close> turns whatever the property reads raise into
  \<open>Error('Failed to parse response from ' + providerName)\<close>; a read that finds nothing
  raises nothing and the function returns \<open>undefined\<close>.
\<close>

definition parseResponse :: "(jsval \<Rightarrow> jsval) \<Rightarrow> jsval \<Rightarrow> jsstring \<Rightarrow> js_error + jsval" where
  "parseResponse stringify data providerName =
    (let body =
       (if providerName = u ''huggingface'' then
          (case data of
             JArr xs \<Rightarrow> get_member_optional (first_element xs) (u ''generated_text'')
           | _ \<Rightarrow> get_member data (u ''generated_text''))
        else if providerName = u ''ollama-proxy'' \<or> providerName = u ''local-llm'' then
          (case get_member data (u ''response'') of
             Inl e \<Rightarrow> Inl e
           | Inr r \<Rightarrow> if truthy r then Inr r else get_member data (u ''text''))
        else
          (case get_member data (u ''content'') of
             Inl e \<Rightarrow> Inl e
           | Inr c \<Rightarrow>
               if truthy c then Inr c
               else (case get_member data (u ''text'') of
                       Inl e \<Rightarrow> Inl e
                     | Inr t \<Rightarrow> if truthy t then Inr t else Inr (stringify data))))
     in case body of
          Inl e \<Rightarrow> Inl (Error (u ''Failed to parse response from '' @ providerName))
        | Inr v \<Rightarrow> Inr v)"

text \<open>
  \<open>callProvider\<close>: the request body by provider name, the post, the parse; its \<open>catch\<close>
  wraps every error into \<open>Error(name + ' API call failed: ' + error.message)\<close>.
\<close>

definition callProvider :: "world \<Rightarrow> provider \<Rightarrow> jsstring \<Rightarrow> js_error + jsval" where
  "callProvider w provider prompt =
    (let timeout = 30000;
         requestData =
           (if name provider = u ''huggingface'' then
              Inr (JObj [(u ''inputs'', JStr prompt),
                         (u ''parameters'',
                          JObj [(u ''max_length'', JNum 2000),
                                (u ''temperature'', JNum (7 / 10)),
                                (u ''do_sample'', JBool True)])])
            else if name provider = u ''ollama-proxy'' then
              Inr (JObj [(u ''model'', JStr (u ''llama2'')),
                         (u ''prompt'', JStr prompt),
                         (u ''stream'', JBool False)])
            else if name provider = u ''local-llm'' then
              Inr (JObj [(u ''model'', JStr (u ''llama2'')),
                         (u ''prompt'', JStr prompt),
                         (u ''stream'', JBool False)])
            else Inl (Error (u ''Unknown provider: '' @ name provider)));
         attempt =
           (case requestData of
              Inl e \<Rightarrow> Inl e
            | Inr body \<Rightarrow>
                (case axios_post w (url provider) body (headers provider) timeout of
                   Rejected msg \<Rightarrow> Inl (Error msg)
                 | Resolved data \<Rightarrow> parseResponse (JSON_stringify w) data (name provider)))
     in case attempt of
          Inl error \<Rightarrow> Inl (Error (name provider @ u '' API call failed: '' @ message error))
        | Inr v \<Rightarrow> Inr v)"

section \<open>The result cache\<close>

text \<open>
  Modelled from the spec: the cache is an instance of the npm package \<open>node-cache\<close>
  (\<open>new NodeCache({ stdTTL: 3600 })\<close>), whose code is not part of this repository. Per the
  spec it is a key-value map from fingerprint to content, \<open>get(fingerprint)\<close> gives the
  content or nothing, \<open>set(fingerprint, content)\<close> replaces the entry of that
  fingerprint, and an entry older than 3600 seconds, measured from its insertion, is
  treated as absent. An entry is kept with the time it was inserted at; an expired one
  stays in the map and is never read.
\<close>

type_synonym cache = "jsstring \<rightharpoonup> (jsval \<times> nat)"

definition stdTTL :: nat where
  "stdTTL = 3600"

definition live :: "nat \<Rightarrow> nat \<Rightarrow> bool" where
  "live inserted now = (now \<le> inserted + stdTTL * 1000)"

definition cache_get :: "cache \<Rightarrow> jsstring \<Rightarrow> nat \<Rightarrow> jsval" where
  "cache_get c key now =
    (case c key of
       None \<Rightarrow> JUndefined
     | Some (v, inserted) \<Rightarrow> if live inserted now then v else JUndefined)"

definition cache_set :: "cache \<Rightarrow> jsstring \<Rightarrow> jsval \<Rightarrow> nat \<Rightarrow> cache" where
  "cache_set c key v now = c(key \<mapsto> (v, now))"

section \<open>generateContent\<close>

text \<open>
  The request object, destructured as \<open>{ prompt, contentType, language = 'english',
  tone = 'professional' }\<close>: a missing \<open>language\<close> or \<open>tone\<close> takes its default.
\<close>

record request =
  req_prompt :: jsstring
  req_contentType :: jsstring
  req_language :: "jsstring option"
  req_tone :: "jsstring option"

definition language_of :: "request \<Rightarrow> jsstring" where
  "language_of req = (case req_language req of None \<Rightarrow> u ''english'' | Some l \<Rightarrow> l)"

definition tone_of :: "request \<Rightarrow> jsstring" where
  "tone_of req = (case req_tone req of None \<Rightarrow> u ''professional'' | Some t \<Rightarrow> t)"

definition cacheKey :: "request \<Rightarrow> jsstring" where
  "cacheKey req =
     req_contentType req @ u ''-'' @ language_of req @ u ''-'' @ tone_of req @ u ''-''
       @ hashString (req_prompt req)"

text \<open>
  The loop over the enabled providers. It yields the first truthy result, the providers
  it called, in order, and the lines it printed with \<open>console.warn\<close>. A call that raises
  is logged and skipped; a call that returns a falsy value is skipped silently.
\<close>

fun try_providers :: "world \<Rightarrow> jsstring \<Rightarrow> provider list \<Rightarrow> jsval option \<times> provider list \<times> jsstring list" where
  "try_providers w fullPrompt [] = (None, [], [])"
| "try_providers w fullPrompt (provider # rest) =
    (case callProvider w provider fullPrompt of
       Inr result \<Rightarrow>
         if truthy result then (Some result, [provider], [])
         else (case try_providers w fullPrompt rest of
                 (r, cs, ws) \<Rightarrow> (r, provider # cs, ws))
     | Inl error \<Rightarrow>
         (case try_providers w fullPrompt rest of
            (r, cs, ws) \<Rightarrow>
              (r, provider # cs,
               (u ''Provider '' @ name provider @ u '' failed: '' @ message error) # ws)))"

text \<open>
  What a call leaves behind: the value it resolves with, the cache, the providers it
  called and the warnings it printed. A call that rejects is \<open>Inl\<close> of the error.

  \<open>this.contentTemplates[contentType] || this.contentTemplates.document\<close> yields a
  template for an own key and for an unknown one; for a key inherited from
  \<open>Object.prototype\<close> it yields that member, which has no \<open>structure\<close>, and
  \<open>template.structure.join\<close> in \<open>buildPrompt\<close> raises a TypeError that nothing catches.
\<close>

record outcome =
  returned :: jsval
  cache_after :: cache
  calls :: "provider list"
  warnings :: "jsstring list"

definition generateContent :: "provider list \<Rightarrow> world \<Rightarrow> cache \<Rightarrow> request \<Rightarrow> js_error + outcome" where
  "generateContent this_providers w c req =
    (let prompt = req_prompt req;
         contentType = req_contentType req;
         language = language_of req;
         tone = tone_of req;
         key = cacheKey req;
         cached = cache_get c key (clock_get w)
     in if truthy cached then
          Inr \<lparr>returned = cached, cache_after = c, calls = [], warnings = []\<rparr>
        else
          (case get_property contentTemplates contentType of
             Inherited \<Rightarrow>
               Inl (TypeError (u ''Cannot read properties of undefined (reading '' @ [0x27] @ u ''join'' @ [0x27] @ u '')''))
           | found \<Rightarrow>
               (let template = (case found of Own t \<Rightarrow> t | _ \<Rightarrow> documentTemplate);
                    fullPrompt = buildPrompt prompt template language tone
                in case try_providers w fullPrompt (filter enabled this_providers) of
                     (Some result, cs, ws) \<Rightarrow>
                       Inr \<lparr>returned = result,
                            cache_after = cache_set c key result (clock_set w),
                            calls = cs, warnings = ws\<rparr>
                   | (None, cs, ws) \<Rightarrow>
                       (let fallbackResult = generateFallbackContent prompt contentType language tone
                        in Inr \<lparr>returned = fallbackResult,
                                cache_after = cache_set c key fallbackResult (clock_set w),
                                calls = cs, warnings = ws\<rparr>))))"

text \<open>
  The requests the routes let through: \<open>contentType\<close>, \<open>language\<close> and \<open>tone\<close> are
  checked with \<open>isIn\<close> against these lists (\<open>language\<close> and \<open>tone\<close> are optional).
\<close>

definition contentTypes :: "jsstring list" where
  "contentTypes = [u ''presentation'', u ''document'', u ''social'', u ''blog'', u ''email'']"

definition languages :: "jsstring list" where
  "languages = [u ''english'', u ''spanish'', u ''french'', u ''german'', u ''chinese'',
                u ''japanese'', u ''portuguese'']"

definition tones :: "jsstring list" where
  "tones = [u ''professional'', u ''casual'', u ''creative'', u ''persuasive'',
            u ''informative'', u ''humorous'']"

definition valid_request :: "request \<Rightarrow> bool" where
  "valid_request req =
    (req_contentType req \<in> set contentTypes
     \<and> language_of req \<in> set languages
     \<and> tone_of req \<in> set tones)"

section \<open>Notions the properties are stated with\<close>

text \<open>
  The template and the prompt \<open>generateContent\<close> sends to the providers, for a content
  type that is not an inherited key.
\<close>

definition resolved_template :: "jsstring \<Rightarrow> template" where
  "resolved_template contentType =
    (case get_property contentTemplates contentType of Own t \<Rightarrow> t | _ \<Rightarrow> documentTemplate)"

definition fullPrompt_of :: "request \<Rightarrow> jsstring" where
  "fullPrompt_of req =
    buildPrompt (req_prompt req) (resolved_template (req_contentType req)) (language_of req) (tone_of req)"

text \<open>
  A provider fails in the loop of \<open>generateContent\<close> when its call raises or returns a
  falsy value; it succeeds with \<open>v\<close> when the call returns the truthy value \<open>v\<close>.
\<close>

definition fails :: "world \<Rightarrow> jsstring \<Rightarrow> provider \<Rightarrow> bool" where
  "fails w fullPrompt p =
    (case callProvider w p fullPrompt of Inl e \<Rightarrow> True | Inr v \<Rightarrow> \<not> truthy v)"

definition succeeds_with :: "world \<Rightarrow> jsstring \<Rightarrow> provider \<Rightarrow> jsval \<Rightarrow> bool" where
  "succeeds_with w fullPrompt p v = (callProvider w p fullPrompt = Inr v \<and> truthy v)"

text \<open>The warnings the loop prints for providers that all fail.\<close>

fun failure_warnings :: "world \<Rightarrow> jsstring \<Rightarrow> provider list \<Rightarrow> jsstring list" where
  "failure_warnings w fullPrompt [] = []"
| "failure_warnings w fullPrompt (p # ps) =
    (case callProvider w p fullPrompt of
       Inl error \<Rightarrow>
         (u ''Provider '' @ name p @ u '' failed: '' @ message error) # failure_warnings w fullPrompt ps
     | Inr v \<Rightarrow> failure_warnings w fullPrompt ps)"

text \<open>
  What \<open>data.key\<close> yields when it raises nothing: an object's own property, and
  \<open>undefined\<close> for every other value.
\<close>

definition member_value :: "jsval \<Rightarrow> jsstring \<Rightarrow> jsval" where
  "member_value data key = (case data of JObj fs \<Rightarrow> field fs key | _ \<Rightarrow> JUndefined)"

text \<open>Two requests with the same topic, content type, language and tone.\<close>

definition same_request :: "request \<Rightarrow> request \<Rightarrow> bool" where
  "same_request r r' =
    (req_prompt r = req_prompt r' \<and> req_contentType r = req_contentType r'
     \<and> language_of r = language_of r' \<and> tone_of r = tone_of r')"

text \<open>
  The cache states the service can reach hold truthy values only: both writes of
  \<open>generateContent\<close> store a truthy value, and nothing else writes the cache.
\<close>

definition cache_wf :: "cache \<Rightarrow> bool" where
  "cache_wf c = (\<forall>key v t. c key = Some (v, t) \<longrightarrow> truthy v)"

text \<open>
  The two lines every fallback template puts in front of its text: \<open>prefix\<close> for a
  language other than english, \<open>toneNote\<close> for a tone other than professional.
\<close>

definition language_marker :: "jsstring \<Rightarrow> jsstring" where
  "language_marker language =
    (if language \<noteq> u ''english'' then u ''[Content in '' @ language @ u '']'' @ nl @ nl else [])"

definition tone_marker :: "jsstring \<Rightarrow> jsstring" where
  "tone_marker tone =
    (if tone \<noteq> u ''professional'' then u ''['' @ tone @ u '' tone]'' @ nl @ nl else [])"

text \<open>The template \<open>generateFallbackContent\<close> picks for a key that is not inherited.\<close>

definition fallback_template :: "jsstring \<Rightarrow> jsstring \<Rightarrow> jsstring \<Rightarrow> jsstring \<Rightarrow> jsstring" where
  "fallback_template prompt contentType language tone =
    (if contentType = u ''presentation'' then generatePresentationTemplate prompt language tone
     else if contentType = u ''document'' then generateDocumentTemplate prompt language tone
     else if contentType = u ''social'' then generateSocialTemplate prompt language tone
     else if contentType = u ''blog'' then generateBlogTemplate prompt language tone
     else if contentType = u ''email'' then generateEmailTemplate prompt language tone
     else generateDocumentTemplate prompt language tone)"

section \<open>Example worlds and requests\<close>

text \<open>
  A world in which every post has the same result (\<open>world_down_later\<close> is
  \<open>world_down\<close> one minute later). Its \<open>JSON.stringify\<close> is never
  reached: \<open>callProvider\<close> rejects an unknown provider name before it parses anything.
\<close>

definition constant_world :: "axios_result \<Rightarrow> nat \<Rightarrow> nat \<Rightarrow> world" where
  "constant_world result t_get t_set =
    \<lparr>clock_get = t_get, clock_set = t_set,
     axios_post = (\<lambda>url body hs timeout. result),
     JSON_stringify = (\<lambda>v. JUndefined)\<rparr>"

definition world_down :: world where
  "world_down = constant_world (Rejected (u ''Network Error'')) 0 0"

definition world_down_later :: world where
  "world_down_later = constant_world (Rejected (u ''Network Error'')) 60000 60000"

definition world_number :: world where
  "world_number = constant_world (Resolved (JArr [JObj [(u ''generated_text'', JNum 42)]])) 0 0"

definition world_hello :: world where
  "world_hello = constant_world (Resolved (JArr [JObj [(u ''generated_text'', JStr (u ''Hello''))]])) 0 5"

definition world_empty_body :: world where
  "world_empty_body = constant_world (Resolved (JStr [])) 0 0"

definition blog_request :: request where
  "blog_request =
    \<lparr>req_prompt = u ''solar power'', req_contentType = u ''blog'',
     req_language = None, req_tone = None\<rparr>"

definition spanish_blog_request :: request where
  "spanish_blog_request =
    \<lparr>req_prompt = u ''solar power'', req_contentType = u ''blog'',
     req_language = Some (u ''spanish''), req_tone = None\<rparr>"

section \<open>The hash and the cache key\<close>

lemma ToInt32_cong: "x mod 2 ^ 32 = y mod 2 ^ 32 \<Longrightarrow> ToInt32 x = ToInt32 y"
proof -
  assume h: "x mod 2 ^ 32 = y mod 2 ^ 32"
  have "(x + 2 ^ 31) mod 2 ^ 32 = (x mod 2 ^ 32 + 2 ^ 31) mod 2 ^ 32"
    by (simp add: mod_add_left_eq)
  also have "\<dots> = (y mod 2 ^ 32 + 2 ^ 31) mod 2 ^ 32"
    using h by simp
  also have "\<dots> = (y + 2 ^ 31) mod 2 ^ 32"
    by (simp add: mod_add_left_eq)
  finally show ?thesis
    by (simp add: ToInt32_def)
qed

lemma ToInt32_mod: "ToInt32 x mod 2 ^ 32 = x mod 2 ^ 32"
proof -
  have "((x + 2 ^ 31) mod 2 ^ 32 - 2 ^ 31) mod 2 ^ 32 = (x + 2 ^ 31 - 2 ^ 31) mod 2 ^ 32"
    by (rule mod_diff_left_eq)
  then show ?thesis
    by (simp add: ToInt32_def)
qed

lemma ToInt32_range: "- (2 ^ 31) \<le> ToInt32 x \<and> ToInt32 x < 2 ^ 31"
proof -
  have "0 \<le> (x + 2 ^ 31) mod (2 ^ 32 :: int)" "(x + 2 ^ 31) mod (2 ^ 32 :: int) < 2 ^ 32"
    by simp_all
  then show ?thesis
    by (simp add: ToInt32_def)
qed

text \<open>
  One round of the loop, \<open>hash = ((hash << 5) - hash) + char; hash = hash & hash\<close>, is
  \<open>31 * hash + char\<close> wrapped to 32 bits, whatever \<open>hash\<close> was.
\<close>

lemma hashString_body_eq: "hashString_body h c = ToInt32 (31 * h + uint c)"
proof -
  let ?c = "uint c"
  have "(ToInt32 (ToInt32 h * 32) - h + ?c) mod 2 ^ 32
      = (ToInt32 (ToInt32 h * 32) mod 2 ^ 32 - h + ?c) mod 2 ^ 32"
    by (metis mod_add_left_eq mod_diff_left_eq)
  also have "\<dots> = (ToInt32 h * 32 mod 2 ^ 32 - h + ?c) mod 2 ^ 32"
    by (simp only: ToInt32_mod)
  also have "\<dots> = (ToInt32 h mod 2 ^ 32 * 32 mod 2 ^ 32 - h + ?c) mod 2 ^ 32"
    by (simp only: mod_mult_left_eq)
  also have "\<dots> = (h mod 2 ^ 32 * 32 mod 2 ^ 32 - h + ?c) mod 2 ^ 32"
    by (simp only: ToInt32_mod)
  also have "\<dots> = (h * 32 mod 2 ^ 32 - h + ?c) mod 2 ^ 32"
    by (simp only: mod_mult_left_eq)
  also have "\<dots> = (h * 32 - h + ?c) mod 2 ^ 32"
    by (metis mod_add_left_eq mod_diff_left_eq)
  also have "\<dots> = (31 * h + ?c) mod 2 ^ 32"
    by (simp add: algebra_simps)
  finally have "ToInt32 (ToInt32 (ToInt32 h * 32) - h + ?c) = ToInt32 (31 * h + ?c)"
    by (rule ToInt32_cong)
  then show ?thesis
    by (simp add: hashString_body_def bitAnd_def shiftLeft_def)
qed

lemma hashString_loop_foldl:
  "hashString_loop h s = foldl (\<lambda>h c. ToInt32 (31 * h + uint c)) h s"
  by (induction s arbitrary: h) (simp_all add: hashString_body_eq)

lemma rolling_hash32_range: "- (2 ^ 31) \<le> rolling_hash32 s \<and> rolling_hash32 s < 2 ^ 31"
proof (cases s rule: rev_cases)
  case Nil
  then show ?thesis by (simp add: rolling_hash32_def)
next
  case (snoc ys y)
  then show ?thesis
    using ToInt32_range by (simp add: rolling_hash32_def)
qed

text \<open>A string is cut at its first separator in one way only.\<close>

lemma split_at_sep:
  "sep \<notin> set a \<Longrightarrow> sep \<notin> set a' \<Longrightarrow> a @ sep # x = a' @ sep # x' \<Longrightarrow> a = a' \<and> x = x'"
proof (induction a arbitrary: a')
  case Nil
  then show ?case by (cases a') auto
next
  case (Cons c cs)
  then show ?case by (cases a') auto
qed

lemma contentTypes_no_dash: "ct \<in> set contentTypes \<Longrightarrow> 0x2D \<notin> set ct"
  by (auto simp: contentTypes_def u_def)

lemma languages_no_dash: "l \<in> set languages \<Longrightarrow> 0x2D \<notin> set l"
  by (auto simp: languages_def u_def)

lemma tones_no_dash: "t \<in> set tones \<Longrightarrow> 0x2D \<notin> set t"
  by (auto simp: tones_def u_def)

lemma u_dash: "u ''-'' = [0x2D]"
  by (simp add: u_def)

lemma blog_requests_valid: "valid_request blog_request" "valid_request spanish_blog_request"
  by (simp_all add: valid_request_def blog_request_def spanish_blog_request_def contentTypes_def
        languages_def tones_def language_of_def tone_of_def)

text \<open>
  C6, as the claim states it, fails: the fields are joined with \<open>-\<close> and nothing keeps
  a \<open>-\<close> out of them. The batch route checks only the prompt and the content type, so
  the language \<open>a-b\<close> with the tone \<open>c\<close> and the language \<open>a\<close> with the tone \<open>b-c\<close>
  both reach \<open>generateContent\<close>; the two requests differ in language and in tone and
  have the same cache key.
\<close>

theorem cacheKey_collision_counterexample:
  "language_of \<lparr>req_prompt = u ''solar power'', req_contentType = u ''blog'',
                 req_language = Some (u ''a-b''), req_tone = Some (u ''c'')\<rparr>
     \<noteq> language_of \<lparr>req_prompt = u ''solar power'', req_contentType = u ''blog'',
                     req_language = Some (u ''a''), req_tone = Some (u ''b-c'')\<rparr>
   \<and> tone_of \<lparr>req_prompt = u ''solar power'', req_contentType = u ''blog'',
                req_language = Some (u ''a-b''), req_tone = Some (u ''c'')\<rparr>
     \<noteq> tone_of \<lparr>req_prompt = u ''solar power'', req_contentType = u ''blog'',
                    req_language = Some (u ''a''), req_tone = Some (u ''b-c'')\<rparr>
   \<and> cacheKey \<lparr>req_prompt = u ''solar power'', req_contentType = u ''blog'',
                 req_language = Some (u ''a-b''), req_tone = Some (u ''c'')\<rparr>
     = cacheKey \<lparr>req_prompt = u ''solar power'', req_contentType = u ''blog'',
                   req_language = Some (u ''a''), req_tone = Some (u ''b-c'')\<rparr>"
  by (simp add: cacheKey_def language_of_def tone_of_def u_def)

text \<open>
  C6, amended. The cache key of every request is \<open>contentType-language-tone-hash\<close>,
  where the hash is the decimal text of a 32-bit rolling hash of the topic (each code
  unit folded in as \<open>31 * hash + char\<close>, wrapped into \<open>[-2^31, 2^31)\<close>); and two
  requests whose content type, language and tone come from the enums and that differ in
  one of the three have different keys.
\<close>

theorem cacheKey_fingerprint:
  "cacheKey r = req_contentType r @ u ''-'' @ language_of r @ u ''-'' @ tone_of r @ u ''-''
                  @ Number_toString (rolling_hash32 (req_prompt r))
   \<and> - (2 ^ 31) \<le> rolling_hash32 (req_prompt r) \<and> rolling_hash32 (req_prompt r) < 2 ^ 31
   \<and> (valid_request r \<and> valid_request r'
        \<and> (req_contentType r \<noteq> req_contentType r' \<or> language_of r \<noteq> language_of r'
             \<or> tone_of r \<noteq> tone_of r')
       \<longrightarrow> cacheKey r \<noteq> cacheKey r')"
proof (intro conjI impI)
  show "cacheKey r = req_contentType r @ u ''-'' @ language_of r @ u ''-'' @ tone_of r @ u ''-''
                  @ Number_toString (rolling_hash32 (req_prompt r))"
    by (simp add: cacheKey_def hashString_def hashString_loop_foldl rolling_hash32_def)
  show "- (2 ^ 31) \<le> rolling_hash32 (req_prompt r)" "rolling_hash32 (req_prompt r) < 2 ^ 31"
    using rolling_hash32_range by simp_all
next
  assume h: "valid_request r \<and> valid_request r'
        \<and> (req_contentType r \<noteq> req_contentType r' \<or> language_of r \<noteq> language_of r'
             \<or> tone_of r \<noteq> tone_of r')"
  show "cacheKey r \<noteq> cacheKey r'"
  proof
    assume eq: "cacheKey r = cacheKey r'"
    from h have nd:
      "0x2D \<notin> set (req_contentType r)" "0x2D \<notin> set (req_contentType r')"
      "0x2D \<notin> set (language_of r)" "0x2D \<notin> set (language_of r')"
      "0x2D \<notin> set (tone_of r)" "0x2D \<notin> set (tone_of r')"
      by (simp_all add: valid_request_def contentTypes_no_dash languages_no_dash tones_no_dash)
    from eq have e1:
      "req_contentType r @ 0x2D # (language_of r @ 0x2D # (tone_of r @ 0x2D # hashString (req_prompt r)))
       = req_contentType r' @ 0x2D # (language_of r' @ 0x2D # (tone_of r' @ 0x2D # hashString (req_prompt r')))"
      by (simp add: cacheKey_def u_dash)
    from split_at_sep [OF nd(1) nd(2) e1] have c: "req_contentType r = req_contentType r'"
      and e2: "language_of r @ 0x2D # (tone_of r @ 0x2D # hashString (req_prompt r))
        = language_of r' @ 0x2D # (tone_of r' @ 0x2D # hashString (req_prompt r'))"
      by simp_all
    from split_at_sep [OF nd(3) nd(4) e2] have l: "language_of r = language_of r'"
      and e3: "tone_of r @ 0x2D # hashString (req_prompt r) = tone_of r' @ 0x2D # hashString (req_prompt r')"
      by simp_all
    from split_at_sep [OF nd(5) nd(6) e3] have t: "tone_of r = tone_of r'"
      by simp
    from h c l t show False by simp
  qed
qed

theorem cacheKey_fingerprint_witness:
  "valid_request blog_request \<and> valid_request spanish_blog_request
   \<and> language_of blog_request \<noteq> language_of spanish_blog_request
   \<and> cacheKey blog_request \<noteq> cacheKey spanish_blog_request"
proof -
  have d: "language_of blog_request \<noteq> language_of spanish_blog_request"
    by (simp add: language_of_def blog_request_def spanish_blog_request_def u_def)
  from blog_requests_valid d cacheKey_fingerprint [of blog_request spanish_blog_request]
  have "cacheKey blog_request \<noteq> cacheKey spanish_blog_request"
    by blast
  with blog_requests_valid d show ?thesis by blast
qed

section \<open>Parsing a provider's response\<close>

lemma name_neq:
  "u ''ollama-proxy'' \<noteq> u ''huggingface''" "u ''local-llm'' \<noteq> u ''huggingface''"
  "u ''huggingface'' \<noteq> u ''ollama-proxy''" "u ''huggingface'' \<noteq> u ''local-llm''"
  by (simp_all add: u_def)

lemma get_member_defined:
  "data \<noteq> JNull \<Longrightarrow> data \<noteq> JUndefined \<Longrightarrow> get_member data key = Inr (member_value data key)"
  by (cases data) (simp_all add: member_value_def)

lemma get_member_optional_defined:
  "get_member_optional x key = Inr (member_value x key)"
  by (cases x) (simp_all add: get_member_optional_def member_value_def)

lemma parse_hf_array:
  "parseResponse sf (JArr (JObj fs # rest)) (u ''huggingface'') = Inr (field fs (u ''generated_text''))"
  by (simp add: parseResponse_def first_element_def get_member_optional_def)

lemma parse_hf_object:
  "parseResponse sf (JObj fs) (u ''huggingface'') = Inr (field fs (u ''generated_text''))"
  by (simp add: parseResponse_def)

lemma parse_ollama_object:
  "n = u ''ollama-proxy'' \<or> n = u ''local-llm'' \<Longrightarrow>
   parseResponse sf (JObj fs) n =
     Inr (if truthy (field fs (u ''response'')) then field fs (u ''response'') else field fs (u ''text''))"
  by (auto simp: parseResponse_def name_neq)

lemma parse_null:
  "parseResponse sf JNull n = Inl (Error (u ''Failed to parse response from '' @ n))"
  by (simp add: parseResponse_def)

lemma parse_no_error:
  assumes "data \<noteq> JNull" "data \<noteq> JUndefined"
  shows "\<exists>v. parseResponse sf data n = Inr v"
  using assms
  by (cases data) (simp_all add: parseResponse_def get_member_defined get_member_optional_defined)

lemma parse_empty_body:
  "n = u ''huggingface'' \<or> n = u ''ollama-proxy'' \<or> n = u ''local-llm'' \<Longrightarrow>
   parseResponse sf (JStr []) n = Inr JUndefined"
  by (auto simp: parseResponse_def name_neq)

lemma parse_empty_array: "parseResponse sf (JArr []) (u ''huggingface'') = Inr JUndefined"
  by (simp add: parseResponse_def first_element_def get_member_optional_def)

lemma parse_missing_field:
  "n = u ''huggingface'' \<or> n = u ''ollama-proxy'' \<or> n = u ''local-llm'' \<Longrightarrow>
   parseResponse sf (JObj []) n = Inr JUndefined"
  by (auto simp: parseResponse_def name_neq field_def)

lemma callProvider_null:
  assumes "name p = u ''huggingface'' \<or> name p = u ''ollama-proxy'' \<or> name p = u ''local-llm''"
    and "\<forall>body. axios_post w (url p) body (headers p) 30000 = Resolved JNull"
  shows "callProvider w p fp =
     Inl (Error (name p @ u '' API call failed: '' @ u ''Failed to parse response from '' @ name p))"
  using assms by (auto simp: callProvider_def parse_null name_neq)

text \<open>
  C5, as the claim states it, fails: an empty body reaches \<open>parseResponse\<close> as the empty
  string, and for the provider huggingface the parse raises nothing and returns
  \<open>undefined\<close>.
\<close>

theorem parseResponse_empty_body_counterexample:
  "parseResponse (JSON_stringify world_empty_body) (JStr []) (u ''huggingface'') = Inr JUndefined"
  by (simp add: parseResponse_def)

text \<open>
  C5, amended. \<open>parseResponse\<close> extracts the text field of each provider's shape: for
  huggingface \<open>generated_text\<close> of the first element of an array body, or of an object
  body; for ollama-proxy and local-llm \<open>response\<close>, or \<open>text\<close> when \<open>response\<close> is falsy.
  It raises \<open>Failed to parse response from <provider>\<close> on the body \<open>null\<close>, which
  \<open>callProvider\<close> re-raises with the provider's name in front; on any other body it
  raises nothing, and on an empty body, an empty array or an object without the field
  it returns \<open>undefined\<close>.
\<close>

theorem parseResponse_shapes:
  "parseResponse sf (JArr (JObj fs # rest)) (u ''huggingface'') = Inr (field fs (u ''generated_text''))
   \<and> parseResponse sf (JObj fs) (u ''huggingface'') = Inr (field fs (u ''generated_text''))
   \<and> (n = u ''ollama-proxy'' \<or> n = u ''local-llm'' \<longrightarrow>
        parseResponse sf (JObj fs) n =
          Inr (if truthy (field fs (u ''response'')) then field fs (u ''response'')
               else field fs (u ''text'')))
   \<and> parseResponse sf JNull n = Inl (Error (u ''Failed to parse response from '' @ n))
   \<and> ((name p = u ''huggingface'' \<or> name p = u ''ollama-proxy'' \<or> name p = u ''local-llm'')
        \<and> (\<forall>body. axios_post w (url p) body (headers p) 30000 = Resolved JNull) \<longrightarrow>
        callProvider w p fp =
          Inl (Error (name p @ u '' API call failed: '' @ u ''Failed to parse response from '' @ name p)))
   \<and> (data \<noteq> JNull \<and> data \<noteq> JUndefined \<longrightarrow> (\<exists>v. parseResponse sf data n = Inr v))
   \<and> (n = u ''huggingface'' \<or> n = u ''ollama-proxy'' \<or> n = u ''local-llm'' \<longrightarrow>
        parseResponse sf (JStr []) n = Inr JUndefined
        \<and> parseResponse sf (JObj []) n = Inr JUndefined)
   \<and> parseResponse sf (JArr []) (u ''huggingface'') = Inr JUndefined"
proof (intro conjI impI)
  show "parseResponse sf (JArr (JObj fs # rest)) (u ''huggingface'') = Inr (field fs (u ''generated_text''))"
    by (rule parse_hf_array)
  show "parseResponse sf (JObj fs) (u ''huggingface'') = Inr (field fs (u ''generated_text''))"
    by (rule parse_hf_object)
  show "parseResponse sf JNull n = Inl (Error (u ''Failed to parse response from '' @ n))"
    by (rule parse_null)
  show "parseResponse sf (JArr []) (u ''huggingface'') = Inr JUndefined"
    by (rule parse_empty_array)
next
  assume "n = u ''ollama-proxy'' \<or> n = u ''local-llm''"
  then show "parseResponse sf (JObj fs) n =
          Inr (if truthy (field fs (u ''response'')) then field fs (u ''response'')
               else field fs (u ''text''))"
    by (rule parse_ollama_object)
next
  assume "(name p = u ''huggingface'' \<or> name p = u ''ollama-proxy'' \<or> name p = u ''local-llm'')
        \<and> (\<forall>body. axios_post w (url p) body (headers p) 30000 = Resolved JNull)"
  then show "callProvider w p fp =
          Inl (Error (name p @ u '' API call failed: '' @ u ''Failed to parse response from '' @ name p))"
    using callProvider_null [of p w fp] by (elim conjE) simp
next
  assume "data \<noteq> JNull \<and> data \<noteq> JUndefined"
  then show "\<exists>v. parseResponse sf data n = Inr v"
    using parse_no_error [of data sf n] by (elim conjE) simp
next
  assume k: "n = u ''huggingface'' \<or> n = u ''ollama-proxy'' \<or> n = u ''local-llm''"
  show "parseResponse sf (JStr []) n = Inr JUndefined"
    using k by (rule parse_empty_body)
  show "parseResponse sf (JObj []) n = Inr JUndefined"
    using k by (rule parse_missing_field)
qed

theorem parseResponse_shapes_witness:
  "parseResponse (\<lambda>v. JUndefined) (JObj [(u ''response'', JStr (u ''Hi''))]) (u ''ollama-proxy'')
     = Inr (JStr (u ''Hi''))
   \<and> callProvider (constant_world (Resolved JNull) 0 0) (hd providers) (u ''Hello'')
     = Inl (Error (u ''huggingface API call failed: Failed to parse response from huggingface''))
   \<and> (\<exists>v. parseResponse (\<lambda>v. JUndefined) (JArr [JNum 1]) (u ''ollama-proxy'') = Inr v)
   \<and> parseResponse (\<lambda>v. JUndefined) (JObj []) (u ''ollama-proxy'') = Inr JUndefined"
proof -
  let ?sf = "\<lambda>v::jsval. JUndefined"
  let ?w = "constant_world (Resolved JNull) 0 0"
  note t = parseResponse_shapes [of ?sf "[(u ''response'', JStr (u ''Hi''))]" "[]" "u ''ollama-proxy''"
      "hd providers" ?w "u ''Hello''" "JArr [JNum 1]"]
  have n: "name (hd providers) = u ''huggingface''"
    by (simp add: providers_def)
  have a: "\<forall>body. axios_post ?w (url (hd providers)) body (headers (hd providers)) 30000 = Resolved JNull"
    by (simp add: constant_world_def)
  have f: "field [(u ''response'', JStr (u ''Hi''))] (u ''response'') = JStr (u ''Hi'')"
    by (simp add: field_def)
  have h: "u ''Hi'' \<noteq> []"
    by (simp add: u_def)
  have m: "u ''huggingface'' @ u '' API call failed: '' @ u ''Failed to parse response from '' @ u ''huggingface''
     = u ''huggingface API call failed: Failed to parse response from huggingface''"
    by (simp add: u_def)
  from t n a f h m show ?thesis
    by simp
qed

section \<open>Properties of the fallback templates\<close>

lemma inherited_not_template: "inherited k \<Longrightarrow> map_of contentTemplates k = None"
  by (auto simp: inherited_def object_prototype_keys_def contentTemplates_def u_def)

lemma valid_not_inherited: "k \<in> set contentTypes \<Longrightarrow> \<not> inherited k"
  by (auto simp: inherited_def object_prototype_keys_def contentTypes_def u_def)

lemma presentation_markers:
  "generatePresentationTemplate p l t =
     language_marker l @ tone_marker t @ generatePresentationTemplate p (u ''english'') (u ''professional'')"
  by (simp add: generatePresentationTemplate_def language_marker_def tone_marker_def Let_def)

lemma document_markers:
  "generateDocumentTemplate p l t =
     language_marker l @ tone_marker t @ generateDocumentTemplate p (u ''english'') (u ''professional'')"
  by (simp add: generateDocumentTemplate_def language_marker_def tone_marker_def Let_def)

lemma social_markers:
  "generateSocialTemplate p l t =
     language_marker l @ tone_marker t @ generateSocialTemplate p (u ''english'') (u ''professional'')"
  by (simp add: generateSocialTemplate_def language_marker_def tone_marker_def Let_def)

lemma blog_markers:
  "generateBlogTemplate p l t =
     language_marker l @ tone_marker t @ generateBlogTemplate p (u ''english'') (u ''professional'')"
  by (simp add: generateBlogTemplate_def language_marker_def tone_marker_def Let_def)

lemma email_markers:
  "generateEmailTemplate p l t =
     language_marker l @ tone_marker t @ generateEmailTemplate p (u ''english'') (u ''professional'')"
  by (simp add: generateEmailTemplate_def language_marker_def tone_marker_def Let_def)

lemma u_Cons: "u (c # s) = of_nat (of_char c) # u s"
  by (simp add: u_def)

lemma presentation_head:
  "\<exists>rest. generatePresentationTemplate p (u ''english'') (u ''professional'') = 0x23 # rest"
  by (simp add: generatePresentationTemplate_def Let_def u_Cons)

lemma document_head:
  "\<exists>rest. generateDocumentTemplate p (u ''english'') (u ''professional'') = 0x23 # rest"
  by (simp add: generateDocumentTemplate_def Let_def u_Cons)

lemma social_head:
  "\<exists>rest. generateSocialTemplate p (u ''english'') (u ''professional'') = 0xD83D # rest"
  by (simp add: generateSocialTemplate_def Let_def)

lemma blog_head:
  "\<exists>rest. generateBlogTemplate p (u ''english'') (u ''professional'') = 0x23 # rest"
  by (simp add: generateBlogTemplate_def Let_def u_Cons)

lemma email_head:
  "\<exists>rest. generateEmailTemplate p (u ''english'') (u ''professional'') = 0x53 # rest"
  by (simp add: generateEmailTemplate_def Let_def u_Cons)

lemma fallback_template_markers:
  "fallback_template p ct l t =
     language_marker l @ tone_marker t @ fallback_template p ct (u ''english'') (u ''professional'')"
  unfolding fallback_template_def
  using presentation_markers [of p l t] document_markers [of p l t] social_markers [of p l t]
    blog_markers [of p l t] email_markers [of p l t]
  by simp

lemma fallback_template_head:
  "\<exists>c rest. fallback_template p ct (u ''english'') (u ''professional'') = c # rest \<and> c \<noteq> 0x5B"
proof -
  obtain r1 r2 r3 r4 r5 where h:
    "generatePresentationTemplate p (u ''english'') (u ''professional'') = 0x23 # r1"
    "generateDocumentTemplate p (u ''english'') (u ''professional'') = 0x23 # r2"
    "generateSocialTemplate p (u ''english'') (u ''professional'') = 0xD83D # r3"
    "generateBlogTemplate p (u ''english'') (u ''professional'') = 0x23 # r4"
    "generateEmailTemplate p (u ''english'') (u ''professional'') = 0x53 # r5"
    using presentation_head [of p] document_head [of p] social_head [of p] blog_head [of p]
      email_head [of p]
    by (elim exE) blast
  show ?thesis
    unfolding fallback_template_def by (simp add: h)
qed

lemma fallback_template_nonempty: "fallback_template p ct l t \<noteq> []"
proof -
  obtain c rest where "fallback_template p ct (u ''english'') (u ''professional'') = c # rest"
    using fallback_template_head [of p ct] by blast
  then show ?thesis
    using fallback_template_markers [of p ct l t] by simp
qed

lemma generateFallbackContent_template:
  assumes "\<not> inherited ct"
  shows "generateFallbackContent p ct l t = JStr (fallback_template p ct l t)"
proof -
  have ne: "generatePresentationTemplate p l t \<noteq> []" "generateDocumentTemplate p l t \<noteq> []"
    "generateSocialTemplate p l t \<noteq> []" "generateBlogTemplate p l t \<noteq> []"
    "generateEmailTemplate p l t \<noteq> []"
    using fallback_template_nonempty [of p "u ''presentation''" l t]
      fallback_template_nonempty [of p "u ''document''" l t]
      fallback_template_nonempty [of p "u ''social''" l t]
      fallback_template_nonempty [of p "u ''blog''" l t]
      fallback_template_nonempty [of p "u ''email''" l t]
    by (simp_all add: fallback_template_def u_def)
  show ?thesis
    using assms ne
    by (simp add: generateFallbackContent_def get_property_def fallback_template_def Let_def)
qed

text \<open>
  C8. For every content type (the five of the enum, and any other key that is not
  inherited from \<open>Object.prototype\<close>, which falls back to the document template) the
  fallback output is the main content, which is what the call gives for english and
  professional, is not empty and does not begin with a bracket, preceded by the line
  \<open>[Content in <language>]\<close> and an empty line when the language is not english, and
  then by the line \<open>[<tone> tone]\<close> and an empty line when the tone is not
  professional; for english and professional nothing precedes the main content.
\<close>

theorem fallback_markers:
  assumes "\<not> inherited contentType"
  shows "\<exists>body. generateFallbackContent prompt contentType (u ''english'') (u ''professional'') = JStr body
     \<and> body \<noteq> [] \<and> hd body \<noteq> 0x5B
     \<and> generateFallbackContent prompt contentType language tone =
         JStr ((if language \<noteq> u ''english'' then u ''[Content in '' @ language @ u '']'' @ nl @ nl else [])
               @ (if tone \<noteq> u ''professional'' then u ''['' @ tone @ u '' tone]'' @ nl @ nl else [])
               @ body)"
proof -
  obtain c rest where b: "fallback_template prompt contentType (u ''english'') (u ''professional'') = c # rest"
    and c: "c \<noteq> 0x5B"
    using fallback_template_head [of prompt contentType] by blast
  have 1: "generateFallbackContent prompt contentType (u ''english'') (u ''professional'') = JStr (c # rest)"
    using generateFallbackContent_template [OF assms] b by simp
  have 2: "generateFallbackContent prompt contentType language tone =
      JStr (language_marker language @ tone_marker tone @ c # rest)"
    using generateFallbackContent_template [OF assms, of prompt language tone]
      fallback_template_markers [of prompt contentType language tone] b
    by simp
  from 1 2 c show ?thesis
    by (intro exI [of _ "c # rest"]) (simp add: language_marker_def tone_marker_def)
qed

theorem fallback_markers_witness:
  "\<not> inherited (u ''blog'')
   \<and> (\<exists>body. generateFallbackContent (u ''solar power'') (u ''blog'') (u ''english'') (u ''professional'') = JStr body
        \<and> hd body \<noteq> 0x5B
        \<and> generateFallbackContent (u ''solar power'') (u ''blog'') (u ''spanish'') (u ''casual'')
            = JStr (u ''[Content in spanish]'' @ nl @ nl @ u ''[casual tone]'' @ nl @ nl @ body))"
proof -
  have i: "\<not> inherited (u ''blog'')"
    by (simp add: inherited_def object_prototype_keys_def u_def)
  have n: "u ''spanish'' \<noteq> u ''english''" "u ''casual'' \<noteq> u ''professional''"
    by (simp_all add: u_def)
  have s: "u ''[Content in '' @ u ''spanish'' @ u '']'' = u ''[Content in spanish]''"
    "u ''['' @ u ''casual'' @ u '' tone]'' = u ''[casual tone]''"
    by (simp_all add: u_def)
  from fallback_markers [OF i, of "u ''solar power''" "u ''spanish''" "u ''casual''"]
  obtain body where
    "generateFallbackContent (u ''solar power'') (u ''blog'') (u ''english'') (u ''professional'') = JStr body"
    "hd body \<noteq> 0x5B"
    "generateFallbackContent (u ''solar power'') (u ''blog'') (u ''spanish'') (u ''casual'')
       = JStr ((u ''[Content in '' @ u ''spanish'' @ u '']'' @ nl @ nl) @ (u ''['' @ u ''casual'' @ u '' tone]'' @ nl @ nl) @ body)"
    using n by auto
  then show ?thesis
    using i s by (metis append_assoc)
qed

section \<open>The loop over the providers\<close>

lemma try_providers_fail_step:
  "fails w fp p \<Longrightarrow>
   try_providers w fp (p # ps) =
     (case try_providers w fp ps of
        (r, cs, ws) \<Rightarrow> (r, p # cs, failure_warnings w fp [p] @ ws))"
  by (auto simp: fails_def split: sum.splits prod.splits)

lemma failure_warnings_append:
  "failure_warnings w fp (xs @ ys) = failure_warnings w fp xs @ failure_warnings w fp ys"
  by (induction xs) (auto split: sum.splits)

lemma try_providers_skip:
  "\<forall>p \<in> set pre. fails w fp p \<Longrightarrow>
   try_providers w fp (pre @ rest) =
     (case try_providers w fp rest of
        (r, cs, ws) \<Rightarrow> (r, pre @ cs, failure_warnings w fp pre @ ws))"
proof (induction pre)
  case Nil
  then show ?case by (simp split: prod.splits)
next
  case (Cons a pre)
  then have a: "fails w fp a" and rest: "\<forall>p \<in> set pre. fails w fp p"
    by simp_all
  have "failure_warnings w fp (a # pre) = failure_warnings w fp [a] @ failure_warnings w fp pre"
    using failure_warnings_append [of w fp "[a]" pre] by simp
  then show ?case
    using Cons.IH [OF rest] try_providers_fail_step [OF a, of "pre @ rest"]
    by (simp split: prod.splits)
qed

lemma try_providers_all_fail:
  "\<forall>p \<in> set ps. fails w fp p \<Longrightarrow> try_providers w fp ps = (None, ps, failure_warnings w fp ps)"
  using try_providers_skip [of ps w fp "[]"] by simp

lemma try_providers_success_step:
  "succeeds_with w fp p v \<Longrightarrow> try_providers w fp (p # post) = (Some v, [p], [])"
  by (simp add: succeeds_with_def)

lemma try_providers_first_success:
  "\<forall>q \<in> set pre. fails w fp q \<Longrightarrow> succeeds_with w fp p v \<Longrightarrow>
   try_providers w fp (pre @ p # post) = (Some v, pre @ [p], failure_warnings w fp pre)"
  using try_providers_skip [of pre w fp "p # post"] try_providers_success_step [of w fp p v post]
  by simp

lemma try_providers_Some_truthy:
  "try_providers w fp ps = (Some v, cs, ws) \<Longrightarrow> truthy v"
  by (induction ps arbitrary: cs ws) (auto split: sum.splits if_splits prod.splits)

lemma try_providers_calls_prefix:
  "try_providers w fp ps = (r, cs, ws) \<Longrightarrow> \<exists>rest. ps = cs @ rest"
  by (induction ps arbitrary: r cs ws) (auto split: sum.splits if_splits prod.splits)

lemma try_providers_calls_head:
  "try_providers w fp (q # ps) = (r, cs, ws) \<Longrightarrow> \<exists>cs'. cs = q # cs'"
  by (auto split: sum.splits if_splits prod.splits)

lemma generateContent_hit:
  "truthy (cache_get c (cacheKey r) (clock_get w)) \<Longrightarrow>
   generateContent ps w c r =
     Inr \<lparr>returned = cache_get c (cacheKey r) (clock_get w), cache_after = c, calls = [], warnings = []\<rparr>"
  by (simp add: generateContent_def Let_def)

lemma generateContent_miss:
  "\<not> truthy (cache_get c (cacheKey r) (clock_get w)) \<Longrightarrow> \<not> inherited (req_contentType r) \<Longrightarrow>
   generateContent ps w c r =
     (case try_providers w (fullPrompt_of r) (filter enabled ps) of
        (Some result, cs, ws) \<Rightarrow>
          Inr \<lparr>returned = result,
               cache_after = cache_set c (cacheKey r) result (clock_set w),
               calls = cs, warnings = ws\<rparr>
      | (None, cs, ws) \<Rightarrow>
          Inr \<lparr>returned = generateFallbackContent (req_prompt r) (req_contentType r) (language_of r) (tone_of r),
               cache_after = cache_set c (cacheKey r)
                 (generateFallbackContent (req_prompt r) (req_contentType r) (language_of r) (tone_of r))
                 (clock_set w),
               calls = cs, warnings = ws\<rparr>)"
  by (simp add: generateContent_def Let_def fullPrompt_of_def resolved_template_def get_property_def
           split: option.splits prod.splits)

lemma generateContent_inherited:
  "\<not> truthy (cache_get c (cacheKey r) (clock_get w)) \<Longrightarrow> inherited (req_contentType r) \<Longrightarrow>
   \<exists>m. generateContent ps w c r = Inl (TypeError m)"
  by (simp add: generateContent_def Let_def get_property_def inherited_not_template)

lemma generateContent_all_fail:
  assumes "\<not> inherited (req_contentType r)"
    and "\<not> truthy (cache_get c (cacheKey r) (clock_get w))"
    and "\<forall>p \<in> set ps. enabled p \<longrightarrow> fails w (fullPrompt_of r) p"
  shows "generateContent ps w c r =
     Inr \<lparr>returned = JStr (fallback_template (req_prompt r) (req_contentType r) (language_of r) (tone_of r)),
          cache_after = cache_set c (cacheKey r)
            (JStr (fallback_template (req_prompt r) (req_contentType r) (language_of r) (tone_of r)))
            (clock_set w),
          calls = filter enabled ps,
          warnings = failure_warnings w (fullPrompt_of r) (filter enabled ps)\<rparr>"
proof -
  have "\<forall>p \<in> set (filter enabled ps). fails w (fullPrompt_of r) p"
    using assms(3) by simp
  then have "try_providers w (fullPrompt_of r) (filter enabled ps)
      = (None, filter enabled ps, failure_warnings w (fullPrompt_of r) (filter enabled ps))"
    by (rule try_providers_all_fail)
  then show ?thesis
    using generateContent_miss [OF assms(2) assms(1), of ps]
      generateFallbackContent_template [OF assms(1)]
    by simp
qed

lemma same_request_key: "same_request r r' \<Longrightarrow> cacheKey r' = cacheKey r"
  by (simp add: same_request_def cacheKey_def)

lemma blog_not_inherited: "\<not> inherited (req_contentType blog_request)"
  by (simp add: blog_request_def inherited_def object_prototype_keys_def u_def)

lemma empty_cache_miss: "\<not> truthy (cache_get Map.empty key now)"
  by (simp add: cache_get_def)

lemma world_down_fails: "\<forall>p \<in> set providers. enabled p \<longrightarrow> fails world_down fp p"
  by (simp add: providers_def fails_def callProvider_def world_down_def constant_world_def u_def)

text \<open>
  C4. When the request misses the cache and every enabled provider fails (its call
  raises or returns a falsy value; in particular when none is enabled),
  \<open>generateContent\<close> returns the string of the fallback generator, which is not empty,
  after calling every enabled provider; and a second call for the same topic, content
  type, language and tone, in any other world, cache and provider list in which it misses
  the cache and every enabled provider fails, returns the same string. The content type
  is any key that is not inherited from \<open>Object.prototype\<close>, as every content type of
  the enum is.
\<close>

theorem fallback_when_all_fail:
  assumes "\<not> inherited (req_contentType r)"
    and "same_request r r'"
    and "\<not> truthy (cache_get c (cacheKey r) (clock_get w))"
    and "\<forall>p \<in> set ps. enabled p \<longrightarrow> fails w (fullPrompt_of r) p"
    and "\<not> truthy (cache_get c' (cacheKey r') (clock_get w'))"
    and "\<forall>p \<in> set ps'. enabled p \<longrightarrow> fails w' (fullPrompt_of r') p"
  shows "\<exists>s out out'. s \<noteq> []
     \<and> generateFallbackContent (req_prompt r) (req_contentType r) (language_of r) (tone_of r) = JStr s
     \<and> generateContent ps w c r = Inr out \<and> returned out = JStr s \<and> calls out = filter enabled ps
     \<and> generateContent ps' w' c' r' = Inr out' \<and> returned out' = JStr s"
proof -
  let ?s = "fallback_template (req_prompt r) (req_contentType r) (language_of r) (tone_of r)"
  have i': "\<not> inherited (req_contentType r')"
    using assms(1,2) by (simp add: same_request_def)
  have e: "fallback_template (req_prompt r') (req_contentType r') (language_of r') (tone_of r') = ?s"
    using assms(2) by (simp add: same_request_def)
  note a = generateContent_all_fail [OF assms(1) assms(3) assms(4)]
  note b = generateContent_all_fail [OF i' assms(5) assms(6)]
  show ?thesis
    using a b e fallback_template_nonempty [of "req_prompt r" "req_contentType r" "language_of r" "tone_of r"]
      generateFallbackContent_template [OF assms(1), of "req_prompt r" "language_of r" "tone_of r"]
    by (intro exI [of _ ?s]) simp
qed

theorem fallback_when_all_fail_witness:
  "\<exists>s out. s \<noteq> []
     \<and> generateContent providers world_down Map.empty blog_request = Inr out
     \<and> returned out = JStr s \<and> calls out = filter enabled providers"
  using fallback_when_all_fail [OF blog_not_inherited _ empty_cache_miss world_down_fails
      empty_cache_miss world_down_fails, of blog_request]
  by (auto simp: same_request_def)

lemma generateContent_first_success:
  assumes "\<not> inherited (req_contentType r)"
    and "\<not> truthy (cache_get c (cacheKey r) (clock_get w))"
    and "filter enabled ps = pre @ p # post"
    and "\<forall>q \<in> set pre. fails w (fullPrompt_of r) q"
    and "succeeds_with w (fullPrompt_of r) p v"
  shows "generateContent ps w c r =
     Inr \<lparr>returned = v, cache_after = cache_set c (cacheKey r) v (clock_set w),
          calls = pre @ [p], warnings = failure_warnings w (fullPrompt_of r) pre\<rparr>"
  using generateContent_miss [OF assms(2) assms(1), of ps]
    try_providers_first_success [OF assms(4) assms(5), of post] assms(3)
  by simp

lemma generateContent_Inr_miss:
  assumes "\<not> inherited (req_contentType r)"
    and "\<not> truthy (cache_get c (cacheKey r) (clock_get w))"
  shows "\<exists>out rest. generateContent ps w c r = Inr out
     \<and> filter enabled ps = calls out @ rest
     \<and> truthy (returned out)
     \<and> cache_after out = cache_set c (cacheKey r) (returned out) (clock_set w)"
proof -
  obtain res cs ws where t: "try_providers w (fullPrompt_of r) (filter enabled ps) = (res, cs, ws)"
    by (cases "try_providers w (fullPrompt_of r) (filter enabled ps)") auto
  obtain rest where p: "filter enabled ps = cs @ rest"
    using try_providers_calls_prefix [OF t] by blast
  have f: "truthy (generateFallbackContent (req_prompt r) (req_contentType r) (language_of r) (tone_of r))"
    using generateFallbackContent_template [OF assms(1)] fallback_template_nonempty by simp
  show ?thesis
  proof (cases res)
    case None
    then show ?thesis
      using generateContent_miss [OF assms(2) assms(1), of ps] t p f by simp
  next
    case (Some v)
    then have "truthy v"
      using try_providers_Some_truthy t by blast
    then show ?thesis
      using generateContent_miss [OF assms(2) assms(1), of ps] t p Some by simp
  qed
qed

lemma providers_enabled: "filter enabled providers = [hd providers, hd (tl providers)]"
  by (simp add: providers_def)

lemma world_hello_succeeds: "succeeds_with world_hello fp (hd providers) (JStr (u ''Hello''))"
  by (simp add: succeeds_with_def callProvider_def world_hello_def constant_world_def providers_def
        parseResponse_def first_element_def get_member_optional_def field_def u_def)

text \<open>
  C3. On a cache miss \<open>generateContent\<close> calls a prefix of the enabled providers, in
  the order of the list, and never a provider that is not enabled; when the enabled
  providers before \<open>p\<close> all fail and \<open>p\<close> succeeds with \<open>v\<close>, it stores \<open>v\<close> under the
  request's cache key, returns \<open>v\<close>, and has called exactly those providers and \<open>p\<close>:
  none of the providers after \<open>p\<close>. The content type is any key that is not inherited
  from \<open>Object.prototype\<close>, as every content type of the enum is.
\<close>

theorem providers_tried_in_order:
  assumes "\<not> inherited (req_contentType r)"
    and "\<not> truthy (cache_get c (cacheKey r) (clock_get w))"
  shows "\<exists>out rest. generateContent ps w c r = Inr out
     \<and> filter enabled ps = calls out @ rest
     \<and> (\<forall>q \<in> set (calls out). enabled q \<and> q \<in> set ps)
     \<and> (\<forall>pre p post v.
           filter enabled ps = pre @ p # post
           \<and> (\<forall>q \<in> set pre. fails w (fullPrompt_of r) q)
           \<and> succeeds_with w (fullPrompt_of r) p v
           \<longrightarrow> out = \<lparr>returned = v, cache_after = cache_set c (cacheKey r) v (clock_set w),
                       calls = pre @ [p], warnings = failure_warnings w (fullPrompt_of r) pre\<rparr>)"
proof -
  obtain out rest where o: "generateContent ps w c r = Inr out"
    and p: "filter enabled ps = calls out @ rest"
    using generateContent_Inr_miss [OF assms, of ps] by blast
  have "set (calls out) \<subseteq> set (filter enabled ps)"
    using p by (metis set_append Un_upper1)
  then have e: "\<forall>q \<in> set (calls out). enabled q \<and> q \<in> set ps"
    by auto
  have s: "\<forall>pre p post v.
           filter enabled ps = pre @ p # post
           \<and> (\<forall>q \<in> set pre. fails w (fullPrompt_of r) q)
           \<and> succeeds_with w (fullPrompt_of r) p v
           \<longrightarrow> out = \<lparr>returned = v, cache_after = cache_set c (cacheKey r) v (clock_set w),
                       calls = pre @ [p], warnings = failure_warnings w (fullPrompt_of r) pre\<rparr>"
  proof (intro allI impI, elim conjE)
    fix pre p post v
    assume "filter enabled ps = pre @ p # post" "\<forall>q \<in> set pre. fails w (fullPrompt_of r) q"
      "succeeds_with w (fullPrompt_of r) p v"
    from generateContent_first_success [OF assms this] o
    show "out = \<lparr>returned = v, cache_after = cache_set c (cacheKey r) v (clock_set w),
                       calls = pre @ [p], warnings = failure_warnings w (fullPrompt_of r) pre\<rparr>"
      by simp
  qed
  from o p e s show ?thesis by blast
qed

theorem providers_tried_in_order_witness:
  "generateContent providers world_hello Map.empty blog_request =
     Inr \<lparr>returned = JStr (u ''Hello''),
          cache_after = cache_set Map.empty (cacheKey blog_request) (JStr (u ''Hello'')) 5,
          calls = [hd providers], warnings = []\<rparr>"
proof -
  obtain out where o: "generateContent providers world_hello Map.empty blog_request = Inr out"
    and s: "\<forall>pre p post v.
           filter enabled providers = pre @ p # post
           \<and> (\<forall>q \<in> set pre. fails world_hello (fullPrompt_of blog_request) q)
           \<and> succeeds_with world_hello (fullPrompt_of blog_request) p v
           \<longrightarrow> out = \<lparr>returned = v, cache_after = cache_set Map.empty (cacheKey blog_request) v (clock_set world_hello),
                       calls = pre @ [p], warnings = failure_warnings world_hello (fullPrompt_of blog_request) pre\<rparr>"
    using providers_tried_in_order [OF blog_not_inherited empty_cache_miss, of providers world_hello]
    by blast
  have "out = \<lparr>returned = JStr (u ''Hello''),
      cache_after = cache_set Map.empty (cacheKey blog_request) (JStr (u ''Hello'')) (clock_set world_hello),
      calls = [] @ [hd providers],
      warnings = failure_warnings world_hello (fullPrompt_of blog_request) []\<rparr>"
    using s [rule_format, of "[]" "hd providers" "[hd (tl providers)]" "JStr (u ''Hello'')"]
      providers_enabled world_hello_succeeds
    by simp
  then show ?thesis
    using o by (simp add: world_hello_def constant_world_def)
qed

lemma world_empty_body_falsy:
  "p \<in> set providers \<Longrightarrow> callProvider world_empty_body p fp = Inr JUndefined"
  by (auto simp: providers_def callProvider_def world_empty_body_def constant_world_def
        parseResponse_def u_def)

text \<open>
  C10. When, on a cache miss, the enabled providers before \<open>p\<close> all fail and the call of
  \<open>p\<close> returns a falsy value \<open>v\<close> without raising, \<open>generateContent\<close> returns a truthy
  value, so not \<open>v\<close>, and the one cache write stores that returned value, so \<open>v\<close> is
  never cached; the loop goes on after \<open>p\<close> with the next enabled provider, if there is
  one; and if every remaining enabled provider fails (also when none remains), the value
  returned is the fallback content.
\<close>

theorem falsy_result_is_failure:
  assumes "\<not> inherited (req_contentType r)"
    and "\<not> truthy (cache_get c (cacheKey r) (clock_get w))"
    and "filter enabled ps = pre @ p # post"
    and "\<forall>q \<in> set pre. fails w (fullPrompt_of r) q"
    and "callProvider w p (fullPrompt_of r) = Inr v"
    and "\<not> truthy v"
  shows "\<exists>out cs. generateContent ps w c r = Inr out
     \<and> truthy (returned out) \<and> returned out \<noteq> v
     \<and> cache_after out = cache_set c (cacheKey r) (returned out) (clock_set w)
     \<and> calls out = pre @ p # cs
     \<and> (\<forall>q post'. post = q # post' \<longrightarrow> (\<exists>cs'. cs = q # cs'))
     \<and> ((\<forall>q \<in> set post. fails w (fullPrompt_of r) q) \<longrightarrow>
          cs = post
          \<and> returned out = generateFallbackContent (req_prompt r) (req_contentType r) (language_of r) (tone_of r))"
proof -
  let ?fp = "fullPrompt_of r"
  have fp: "fails w ?fp p"
    using assms(5,6) by (simp add: fails_def)
  then have pre': "\<forall>q \<in> set (pre @ [p]). fails w ?fp q"
    using assms(4) by simp
  obtain res cs ws where t: "try_providers w ?fp post = (res, cs, ws)"
    by (cases "try_providers w ?fp post") auto
  have whole: "try_providers w ?fp (filter enabled ps)
      = (res, (pre @ [p]) @ cs, failure_warnings w ?fp (pre @ [p]) @ ws)"
    using try_providers_skip [OF pre', of post] t assms(3) by simp
  have f: "truthy (generateFallbackContent (req_prompt r) (req_contentType r) (language_of r) (tone_of r))"
    using generateFallbackContent_template [OF assms(1)] fallback_template_nonempty by simp
  have hd: "\<forall>q post'. post = q # post' \<longrightarrow> (\<exists>cs'. cs = q # cs')"
    using t try_providers_calls_head by blast
  have allfail: "(\<forall>q \<in> set post. fails w ?fp q) \<longrightarrow> res = None \<and> cs = post"
    using try_providers_all_fail [of post w ?fp] t by auto
  show ?thesis
  proof (cases res)
    case None
    then show ?thesis
      using generateContent_miss [OF assms(2) assms(1), of ps] whole f hd allfail assms(6)
      by auto
  next
    case (Some v')
    then have tv: "truthy v'"
      using try_providers_Some_truthy t by blast
    then have "v' \<noteq> v"
      using assms(6) by auto
    then show ?thesis
      using generateContent_miss [OF assms(2) assms(1), of ps] whole Some tv hd allfail
      by auto
  qed
qed

theorem falsy_result_is_failure_witness:
  "\<exists>out. generateContent providers world_empty_body Map.empty blog_request = Inr out
     \<and> truthy (returned out)
     \<and> calls out = [hd providers, hd (tl providers)]
     \<and> returned out = generateFallbackContent (req_prompt blog_request) (req_contentType blog_request)
          (language_of blog_request) (tone_of blog_request)"
proof -
  have a: "callProvider world_empty_body (hd providers) (fullPrompt_of blog_request) = Inr JUndefined"
    by (rule world_empty_body_falsy) (simp add: providers_def)
  have b: "\<forall>q \<in> set [hd (tl providers)]. fails world_empty_body (fullPrompt_of blog_request) q"
    using world_empty_body_falsy [of "hd (tl providers)"] by (simp add: fails_def providers_def)
  have e: "filter enabled providers = [] @ hd providers # [hd (tl providers)]"
    using providers_enabled by simp
  from falsy_result_is_failure [OF blog_not_inherited empty_cache_miss e _ a] b
  show ?thesis
    by auto
qed

section \<open>Properties of the cache\<close>

lemma cache_get_truthy:
  "truthy (cache_get c key now) \<Longrightarrow> \<exists>t. c key = Some (cache_get c key now, t) \<and> live t now"
  by (auto simp: cache_get_def split: option.splits if_splits)

lemma generateContent_Inr:
  assumes "generateContent ps w c r = Inr out"
  shows "truthy (returned out)
     \<and> (\<exists>t. cache_after out (cacheKey r) = Some (returned out, t)
            \<and> (\<not> truthy (cache_get c (cacheKey r) (clock_get w)) \<longrightarrow> t = clock_set w))
     \<and> (cache_after out = c \<or> cache_after out = cache_set c (cacheKey r) (returned out) (clock_set w))"
proof (cases "truthy (cache_get c (cacheKey r) (clock_get w))")
  case True
  then have "out = \<lparr>returned = cache_get c (cacheKey r) (clock_get w), cache_after = c, calls = [], warnings = []\<rparr>"
    using generateContent_hit [OF True, of ps] assms by simp
  then show ?thesis
    using True cache_get_truthy [OF True] by auto
next
  case False
  have ni: "\<not> inherited (req_contentType r)"
    using generateContent_inherited [OF False, of ps] assms by auto
  obtain out' where "generateContent ps w c r = Inr out'" "truthy (returned out')"
    "cache_after out' = cache_set c (cacheKey r) (returned out') (clock_set w)"
    using generateContent_Inr_miss [OF ni False, of ps] by blast
  then show ?thesis
    using assms False by (auto simp: cache_set_def)
qed

lemma cache_wf_empty: "cache_wf Map.empty"
  by (simp add: cache_wf_def)

lemma cache_wf_set: "cache_wf c \<Longrightarrow> truthy v \<Longrightarrow> cache_wf (cache_set c key v now)"
  by (simp add: cache_wf_def cache_set_def)

lemma generateContent_cache_wf:
  "cache_wf c \<Longrightarrow> generateContent ps w c r = Inr out \<Longrightarrow> cache_wf (cache_after out)"
  using generateContent_Inr [of ps w c r out] cache_wf_set by auto

lemma generateContent_cached:
  assumes "truthy v" "c (cacheKey r) = Some (v, t)" "live t (clock_get w)"
  shows "generateContent ps w c r = Inr \<lparr>returned = v, cache_after = c, calls = [], warnings = []\<rparr>"
proof -
  have "cache_get c (cacheKey r) (clock_get w) = v"
    using assms(2,3) by (simp add: cache_get_def)
  then show ?thesis
    using generateContent_hit [of c r w ps] assms(1) by simp
qed

lemma hello_truthy: "truthy (JStr (u ''Hello''))"
  by (simp add: u_def)

lemma first_call_hello:
  "generateContent providers world_hello Map.empty blog_request =
     Inr \<lparr>returned = JStr (u ''Hello''),
          cache_after = cache_set Map.empty (cacheKey blog_request) (JStr (u ''Hello'')) 5,
          calls = [hd providers], warnings = []\<rparr>"
  using generateContent_first_success [OF blog_not_inherited empty_cache_miss, of providers "[]"
      "hd providers" "[hd (tl providers)]" world_hello "JStr (u ''Hello'')"]
    providers_enabled world_hello_succeeds
  by (simp add: world_hello_def constant_world_def)

text \<open>
  C2. In a cache whose values are all truthy, as in every cache the service reaches, a
  request whose key has an entry that is still live (inserted at most the TTL of 3600
  seconds ago) gets exactly the cached value, the cache is left as it is and no provider
  is called. And after any call that returns, the request's key holds the value returned;
  a second call for the same topic, content type, language and tone while that entry is
  live returns the same value without calling a provider, whatever the world and the
  provider list are then. After a miss the entry's time is the time of the write.
\<close>

theorem cache_hit_no_provider_calls:
  "(cache_wf c \<and> c (cacheKey r) = Some (v, t) \<and> live t (clock_get w) \<longrightarrow>
      generateContent ps w c r = Inr \<lparr>returned = v, cache_after = c, calls = [], warnings = []\<rparr>)
   \<and> (generateContent ps w c r = Inr out \<and> same_request r r' \<longrightarrow>
      (\<exists>t. cache_after out (cacheKey r) = Some (returned out, t)
         \<and> (\<not> truthy (cache_get c (cacheKey r) (clock_get w)) \<longrightarrow> t = clock_set w)
         \<and> (live t (clock_get w') \<longrightarrow>
              generateContent ps' w' (cache_after out) r' =
                Inr \<lparr>returned = returned out, cache_after = cache_after out, calls = [], warnings = []\<rparr>)))"
proof (intro conjI impI)
  assume h: "cache_wf c \<and> c (cacheKey r) = Some (v, t) \<and> live t (clock_get w)"
  then have "truthy v"
    by (auto simp: cache_wf_def)
  then show "generateContent ps w c r = Inr \<lparr>returned = v, cache_after = c, calls = [], warnings = []\<rparr>"
    using h generateContent_cached by blast
next
  assume h: "generateContent ps w c r = Inr out \<and> same_request r r'"
  then obtain t where t: "cache_after out (cacheKey r) = Some (returned out, t)"
    "\<not> truthy (cache_get c (cacheKey r) (clock_get w)) \<longrightarrow> t = clock_set w"
    and tr: "truthy (returned out)"
    using generateContent_Inr [of ps w c r out] by blast
  have k: "cacheKey r' = cacheKey r"
    using h same_request_key by blast
  have "live t (clock_get w') \<longrightarrow>
      generateContent ps' w' (cache_after out) r' =
        Inr \<lparr>returned = returned out, cache_after = cache_after out, calls = [], warnings = []\<rparr>"
    using generateContent_cached [OF tr, of "cache_after out" r' t w' ps'] t(1) k by simp
  with t show "\<exists>t. cache_after out (cacheKey r) = Some (returned out, t)
         \<and> (\<not> truthy (cache_get c (cacheKey r) (clock_get w)) \<longrightarrow> t = clock_set w)
         \<and> (live t (clock_get w') \<longrightarrow>
              generateContent ps' w' (cache_after out) r' =
                Inr \<lparr>returned = returned out, cache_after = cache_after out, calls = [], warnings = []\<rparr>)"
    by blast
qed

theorem cache_hit_no_provider_calls_witness:
  "generateContent providers world_down_later
      (cache_set Map.empty (cacheKey blog_request) (JStr (u ''Hello'')) 5) blog_request =
     Inr \<lparr>returned = JStr (u ''Hello''),
          cache_after = cache_set Map.empty (cacheKey blog_request) (JStr (u ''Hello'')) 5,
          calls = [], warnings = []\<rparr>
   \<and> (\<exists>out. generateContent providers world_hello Map.empty blog_request = Inr out
        \<and> generateContent providers world_down_later (cache_after out) blog_request =
            Inr \<lparr>returned = returned out, cache_after = cache_after out, calls = [], warnings = []\<rparr>)"
proof -
  let ?c = "cache_set Map.empty (cacheKey blog_request) (JStr (u ''Hello'')) 5"
  let ?out = "\<lparr>returned = JStr (u ''Hello''), cache_after = ?c, calls = [hd providers], warnings = []\<rparr>"
  have wf: "cache_wf ?c"
    using cache_wf_set [OF cache_wf_empty hello_truthy] .
  have e: "?c (cacheKey blog_request) = Some (JStr (u ''Hello''), 5)"
    by (simp add: cache_set_def)
  have l: "live 5 (clock_get world_down_later)"
    by (simp add: live_def world_down_later_def constant_world_def stdTTL_def)
  have s: "same_request blog_request blog_request"
    by (simp add: same_request_def)
  have m: "\<not> truthy (cache_get Map.empty (cacheKey blog_request) (clock_get world_hello))"
    by (rule empty_cache_miss)
  have cs: "clock_set world_hello = 5"
    by (simp add: world_hello_def constant_world_def)
  note a = cache_hit_no_provider_calls [of ?c blog_request "JStr (u ''Hello'')" 5 world_down_later
      providers ?out blog_request world_down_later providers, THEN conjunct1, rule_format]
  note b = cache_hit_no_provider_calls [of Map.empty blog_request "JStr (u ''Hello'')" 5 world_hello
      providers ?out blog_request world_down_later providers, THEN conjunct2, rule_format]
  have 1: "generateContent providers world_down_later ?c blog_request =
     Inr \<lparr>returned = JStr (u ''Hello''), cache_after = ?c, calls = [], warnings = []\<rparr>"
    using a wf e l by blast
  obtain t where t: "cache_after ?out (cacheKey blog_request) = Some (returned ?out, t)"
      "\<not> truthy (cache_get Map.empty (cacheKey blog_request) (clock_get world_hello)) \<longrightarrow> t = clock_set world_hello"
      "live t (clock_get world_down_later) \<longrightarrow>
         generateContent providers world_down_later (cache_after ?out) blog_request =
           Inr \<lparr>returned = returned ?out, cache_after = cache_after ?out, calls = [], warnings = []\<rparr>"
    using b first_call_hello s by blast
  have "t = 5"
    using t(2) m cs by simp
  then have 2: "generateContent providers world_down_later (cache_after ?out) blog_request =
           Inr \<lparr>returned = returned ?out, cache_after = cache_after ?out, calls = [], warnings = []\<rparr>"
    using t(3) l by simp
  from 1 2 first_call_hello show ?thesis
    by blast
qed

text \<open>
  C9. The cache holds one entry per key: a write stores the new value and time under its
  key, leaves every other key as it was, adds no key but its own, and over a key that
  is already there leaves the number of entries unchanged. A call of \<open>generateContent\<close>
  that returns leaves the cache as it was (a hit) or writes once, the value it returns
  (a provider's result or the fallback content), under the request's key.
\<close>

theorem cache_one_entry_per_key:
  "cache_set c key v now key = Some (v, now)
   \<and> (\<forall>k. k \<noteq> key \<longrightarrow> cache_set c key v now k = c k)
   \<and> dom (cache_set c key v now) = insert key (dom c)
   \<and> (finite (dom c) \<and> key \<in> dom c \<longrightarrow> card (dom (cache_set c key v now)) = card (dom c))
   \<and> (generateContent ps w c r = Inr out \<longrightarrow>
        cache_after out = c
        \<or> cache_after out = cache_set c (cacheKey r) (returned out) (clock_set w))"
proof (intro conjI impI allI)
  show "cache_set c key v now key = Some (v, now)"
    by (simp add: cache_set_def)
  show "dom (cache_set c key v now) = insert key (dom c)"
    by (simp add: cache_set_def)
next
  fix k assume "k \<noteq> key"
  then show "cache_set c key v now k = c k"
    by (simp add: cache_set_def)
next
  assume "finite (dom c) \<and> key \<in> dom c"
  then show "card (dom (cache_set c key v now)) = card (dom c)"
    by (simp add: cache_set_def insert_absorb)
next
  assume "generateContent ps w c r = Inr out"
  then show "cache_after out = c
        \<or> cache_after out = cache_set c (cacheKey r) (returned out) (clock_set w)"
    using generateContent_Inr by blast
qed

theorem cache_one_entry_per_key_witness:
  "card (dom (cache_set (cache_set Map.empty (u ''k'') (JStr (u ''old'')) 0) (u ''k'') (JStr (u ''new'')) 7)) = 1
   \<and> cache_set (cache_set Map.empty (u ''k'') (JStr (u ''old'')) 0) (u ''k'') (JStr (u ''new'')) 7 (u ''k'')
       = Some (JStr (u ''new''), 7)
   \<and> cache_set (cache_set Map.empty (u ''k'') (JStr (u ''old'')) 0) (u ''k'') (JStr (u ''new'')) 7 (u ''j'')
       = None
   \<and> (\<exists>out. generateContent providers world_hello Map.empty blog_request = Inr out
        \<and> cache_after out = cache_set Map.empty (cacheKey blog_request) (returned out) 5)"
proof -
  let ?c = "cache_set Map.empty (u ''k'') (JStr (u ''old'')) 0"
  let ?out = "\<lparr>returned = JStr (u ''Hello''),
          cache_after = cache_set Map.empty (cacheKey blog_request) (JStr (u ''Hello'')) 5,
          calls = [hd providers], warnings = []\<rparr>"
  note t = cache_one_entry_per_key [of ?c "u ''k''" "JStr (u ''new'')" 7 providers world_hello
      blog_request ?out]
  have d: "dom ?c = {u ''k''}" "finite (dom ?c)" "u ''k'' \<in> dom ?c"
    by (simp_all add: cache_set_def)
  have n: "u ''j'' \<noteq> u ''k''"
    by (simp add: u_def)
  have o: "?c (u ''j'') = None"
    using n by (simp add: cache_set_def)
  have 1: "card (dom (cache_set ?c (u ''k'') (JStr (u ''new'')) 7)) = 1"
    using t d by simp
  have 2: "cache_set ?c (u ''k'') (JStr (u ''new'')) 7 (u ''k'') = Some (JStr (u ''new''), 7)"
    using t by blast
  have 3: "cache_set ?c (u ''k'') (JStr (u ''new'')) 7 (u ''j'') = None"
    using t n o by simp
  have 4: "cache_after ?out = cache_set Map.empty (cacheKey blog_request) (returned ?out) 5"
    by simp
  from 1 2 3 4 first_call_hello show ?thesis
    by blast
qed

section \<open>What generateContent returns\<close>

lemma world_number_succeeds: "succeeds_with world_number fp (hd providers) (JNum 42)"
  by (simp add: succeeds_with_def callProvider_def world_number_def constant_world_def providers_def
        parseResponse_def first_element_def get_member_optional_def field_def u_def)

text \<open>
  C1. For a request of the enums \<open>generateContent\<close> never raises (see
  \<open>generateContent_never_raises\<close> below), but what it returns on the path of a
  successful provider is whatever the parse found, of any type: when huggingface answers
  \<open>[{"generated_text": 42}]\<close> the well-formed request for a blog post on solar power
  gets the number 42, not a string.
\<close>

theorem generateContent_returns_number:
  "valid_request blog_request
   \<and> (\<exists>out. generateContent providers world_number Map.empty blog_request = Inr out
         \<and> returned out = JNum 42 \<and> \<not> is_string (returned out))"
  using generateContent_first_success [OF blog_not_inherited empty_cache_miss, of providers "[]"
      "hd providers" "[hd (tl providers)]" world_number "JNum 42"]
    providers_enabled world_number_succeeds blog_requests_valid(1)
  by simp

text \<open>No error reaches the caller of a request of the enums, and the value is truthy.\<close>

lemma generateContent_never_raises:
  assumes "valid_request r"
  shows "\<exists>out. generateContent ps w c r = Inr out \<and> truthy (returned out)"
proof (cases "truthy (cache_get c (cacheKey r) (clock_get w))")
  case True
  then show ?thesis
    using generateContent_hit [OF True, of ps] by simp
next
  case False
  have "\<not> inherited (req_contentType r)"
    using assms valid_not_inherited by (simp add: valid_request_def)
  then show ?thesis
    using generateContent_Inr_miss [OF _ False, of ps] by blast
qed

section \<open>Properties of buildPrompt\<close>

lemma buildPrompt_concat:
  "buildPrompt p t l tn =
     systemPrompt t @ nl @ nl @ instruction languageInstructions l @ nl
       @ instruction toneModifiers tn @ nl @ nl @ u ''Topic: '' @ p @ nl @ nl
       @ u ''Please create high-quality content following this structure: ''
       @ join (u '' '' @ [0x2192] @ u '' '') (structure' t) @ nl @ nl
       @ u ''Make it comprehensive, engaging, and actionable.''"
  by (simp add: buildPrompt_def Let_def)

lemma instruction_english: "instruction languageInstructions (u ''english'') = []"
  by (simp add: instruction_def get_property_def languageInstructions_def)

lemma instruction_absent:
  "map_of table key = None \<Longrightarrow> \<not> inherited key \<Longrightarrow> instruction table key = []"
  by (simp add: instruction_def get_property_def)

lemma constructor_inherited: "inherited (u ''constructor'')"
  by (simp add: inherited_def object_prototype_keys_def)

lemma constructor_not_language: "map_of languageInstructions (u ''constructor'') = None"
  by (simp add: languageInstructions_def u_def)

text \<open>
  C7. \<open>buildPrompt\<close> is a function of its four arguments, and its output holds the topic
  and the section names joined with the arrow (\<open>buildPrompt_concat\<close>); the language
  directive is empty for english and for a key that is neither in the table nor a member
  of \<open>Object.prototype\<close> (\<open>instruction_english\<close>, \<open>instruction_absent\<close>). For the
  unknown language \<open>constructor\<close>, though, the lookup finds the inherited member and
  the directive is its text, not the empty string.
\<close>

theorem buildPrompt_inherited_language:
  "u ''constructor'' \<notin> set languages
   \<and> instruction languageInstructions (u ''constructor'') = u ''function Object() { [native code] }''
   \<and> u ''function Object() { [native code] }'' \<noteq> []
   \<and> buildPrompt p t (u ''constructor'') tn =
       systemPrompt t @ nl @ nl @ u ''function Object() { [native code] }'' @ nl
         @ instruction toneModifiers tn @ nl @ nl @ u ''Topic: '' @ p @ nl @ nl
         @ u ''Please create high-quality content following this structure: ''
         @ join (u '' '' @ [0x2192] @ u '' '') (structure' t) @ nl @ nl
         @ u ''Make it comprehensive, engaging, and actionable.''"
proof -
  have 1: "u ''constructor'' \<notin> set languages"
    by (simp add: languages_def u_def)
  have p: "u ''constructor'' \<noteq> u ''__proto__''"
    by (simp add: u_def)
  have 2: "instruction languageInstructions (u ''constructor'') = u ''function Object() { [native code] }''"
    using constructor_inherited constructor_not_language p
    by (simp add: instruction_def get_property_def native_text_def)
  have 3: "u ''function Object() { [native code] }'' \<noteq> []"
    by (simp add: u_def)
  from 1 2 3 buildPrompt_concat [of p t "u ''constructor''" tn] show ?thesis
    by simp
qed

end
